theory Spec2Isabelle
  imports Complex_Main "HOL-Library.Word" "HOL-Library.Log_Nat"
begin

section \<open>The mint saga of DPAL: data model\<close>

text \<open>
  The development embeds \<^verbatim>\<open>src/services/mintService.ts\<close> (\<^verbatim>\<open>executeMintFlow\<close>,
  \<^verbatim>\<open>serveAssetImage\<close>) and \<^verbatim>\<open>src/models/NftAsset.ts\<close>. Every MongoDB collection is the list
  of its documents in insertion order; a query takes the first document that matches, as
  \<^verbatim>\<open>findOne\<close> and \<^verbatim>\<open>updateOne\<close> do. A number is a finite double, held as the rational it
  denotes; \<^verbatim>\<open>$inc\<close> adds as doubles do, rounding the sum to the nearest double. An
  \<^verbatim>\<open>ObjectId\<close> is a natural number. Console output is not part of the state. A storage call fails only by rejecting
  a document (a validator or a unique index); the store itself is taken to be available.
\<close>

type_synonym objectId = nat
type_synonym number = rat
type_synonym byte = "8 word"

datatype error =
    INSUFFICIENT_CREDITS
  | IMAGE_GENERATION_FAILED
  | ASSET_NOT_FOUND
  | TypeError string
  | ProviderError string
  | DuplicateKey string
  | ValidationError string

text \<open>The \<^verbatim>\<open>message\<close> property of the thrown error, which the failure annotation stores.\<close>

fun message :: "error \<Rightarrow> string" where
  "message INSUFFICIENT_CREDITS = ''INSUFFICIENT_CREDITS''"
| "message IMAGE_GENERATION_FAILED = ''IMAGE_GENERATION_FAILED''"
| "message ASSET_NOT_FOUND = ''ASSET_NOT_FOUND''"
| "message (TypeError m) = m"
| "message (ProviderError m) = m"
| "message (DuplicateKey c) = ''E11000 duplicate key error collection: '' @ c"
| "message (ValidationError m) = m"

subsection \<open>The request payload\<close>

record attribute =
  trait_type :: string
  trait_value :: string

record mint_meta =
  concept :: string
  theme :: string

text \<open>
  The fields that \<^verbatim>\<open>executeMintFlow\<close> destructures from \<^verbatim>\<open>payload\<close>, with the types of the
  spec's operation surface; \<^verbatim>\<open>attributes\<close> may be absent (\<^verbatim>\<open>payload.attributes || []\<close>).
\<close>

record payload =
  idempotencyKey :: string
  meta :: mint_meta
  assetDraftId :: string
  collectionId :: string
  chain :: string
  priceCredits :: number
  attributes :: "attribute list option"

subsection \<open>Documents\<close>

record wallet =
  w_userId :: string
  balance :: number
  lockedBalance :: number
  updatedAt :: nat

datatype ledger_type = CREDIT_LOCK | CREDIT_SPEND
datatype direction = DEBIT | CREDIT

text \<open>\<^verbatim>\<open>referenceId\<close> is the draft id on the lock entry and the request's \<^verbatim>\<open>_id\<close> on the spend entry.\<close>

datatype reference = DraftRef string | RequestRef objectId

record ledger_entry =
  le_id :: objectId
  le_userId :: string
  le_type :: ledger_type
  le_amount :: number
  le_direction :: direction
  le_referenceId :: reference
  le_idempotencyKey :: string

datatype request_status = PROCESSING | COMPLETED | FAILED

text \<open>\<^verbatim>\<open>{...payload, userId, status}\<close>: the payload's fields, the user and the status; \<^verbatim>\<open>error\<close> is set by the failure annotation only.\<close>

record mint_request =
  rq_id :: objectId
  rq_payload :: payload
  rq_userId :: string
  rq_status :: request_status
  rq_error :: "string option"

datatype asset_status = DRAFT | MINTED | BURNED

text \<open>\<^verbatim>\<open>INftAsset\<close>; \<^verbatim>\<open>imageData\<close> is optional in the interface and in the schema.\<close>

record nft_asset =
  as_id :: objectId
  tokenId :: string
  as_collectionId :: string
  as_chain :: string
  metadataUri :: string
  imageUri :: string
  as_attributes :: "attribute list"
  createdByUserId :: string
  as_status :: asset_status
  imageData :: "byte list option"

text \<open>
  The receipt as \<^verbatim>\<open>MintReceipt.create\<close> is given it (lines 121 to 131), and the field
  \<^verbatim>\<open>idempotencyKey\<close> that the lookup of line 21 filters on. A document that lacks a field does
  not match an equality filter on it.
\<close>

record mint_receipt =
  rc_id :: objectId
  rc_mintRequestId :: objectId
  rc_userId :: string
  rc_tokenId :: string
  rc_txHash :: string
  rc_chain :: string
  rc_metadataUri :: string
  rc_imageUri :: string
  rc_priceCredits :: number
  rc_ledgerEntryId :: objectId
  rc_idempotencyKey :: "string option"

record audit_event =
  au_id :: objectId
  au_actorUserId :: string
  au_action :: string
  au_entityType :: string
  au_entityId :: objectId
  au_hash :: string
  au_priceCredits :: number
  au_tokenId :: string

record db =
  wallets :: "wallet list"
  ledger :: "ledger_entry list"
  requests :: "mint_request list"
  receipts :: "mint_receipt list"
  assets :: "nft_asset list"
  audits :: "audit_event list"

subsection \<open>What the call reads from outside\<close>

text \<open>The response of \<^verbatim>\<open>ai.models.generateContent\<close>, each level of which may be undefined.\<close>

datatype inline_data = InlineData (data: "string option")
datatype part = Part (inlineData: "inline_data option")
datatype content = Content (parts: "part list option")
datatype candidate = Candidate (content: "content option")
datatype response = Response (candidates: "candidate list option")

datatype gen_outcome = Rejected string | Resolved response

text \<open>
  Everything one call takes from its environment: the two clock readings, the two random
  draws, the generator, the base64 decoder of \<^verbatim>\<open>Buffer.from\<close>, the \<^verbatim>\<open>_id\<close> values that the six
  \<^verbatim>\<open>create\<close> calls generate (in the order of the calls), and whether the write of the failure
  annotation throws.
\<close>

record env =
  newDate :: nat
  dateNow :: nat
  randomThousand :: nat
  randomHex :: string
  generateContent :: "string \<Rightarrow> gen_outcome"
  bufferFromBase64 :: "string \<Rightarrow> byte list"
  newObjectId :: "nat \<Rightarrow> objectId"
  annotationThrows :: bool

text \<open>
  The schemas of \<^verbatim>\<open>CreditLedger\<close>, \<^verbatim>\<open>MintRequest\<close> and \<^verbatim>\<open>MintReceipt\<close> are not among the
  sources. Whether each has the unique index that the spec's persisted state layout lists is a
  parameter of the model.
\<close>

record indexes =
  ledgerKeyUnique :: bool
  requestKeyUnique :: bool
  receiptKeyUnique :: bool

section \<open>Numbers\<close>

text \<open>
  The sum of two doubles is the double nearest to the exact sum, the one with the even
  significand when two are equally near: 53 significant bits, and no exponent below that of
  the subnormal numbers. Sums beyond the largest double are outside the model.
\<close>

definition pow2 :: "int \<Rightarrow> rat" where
  "pow2 e = (if 0 \<le> e then 2 ^ nat e else 1 / 2 ^ nat (- e))"

text \<open>The exponent of the highest bit of a positive number.\<close>

definition floorLog2 :: "rat \<Rightarrow> int" where
  "floorLog2 x =
     (let d = bitlen (fst (quotient_of x)) - bitlen (snd (quotient_of x))
      in if pow2 d \<le> x then d else d - 1)"

definition roundHalfEven :: "rat \<Rightarrow> int" where
  "roundHalfEven q =
     (let f = \<lfloor>q\<rfloor>; r = q - of_int f
      in if r < 1 / 2 then f else if 1 / 2 < r then f + 1 else if even f then f else f + 1)"

definition jsRound :: "rat \<Rightarrow> number" where
  "jsRound x =
     (if x = 0 then 0
      else let e = max (floorLog2 \<bar>x\<bar> - 52) (- 1074)
           in (if x < 0 then - 1 else 1) * of_int (roundHalfEven (\<bar>x\<bar> / pow2 e)) * pow2 e)"

definition jsAdd :: "number \<Rightarrow> number \<Rightarrow> number" where
  "jsAdd a b = jsRound (a + b)"

text \<open>\<^verbatim>\<open>Number.isSafeInteger\<close>: a whole number of magnitude at most \<open>2 ^ 53 - 1\<close>.\<close>

definition isSafeInteger :: "number \<Rightarrow> bool" where
  "isSafeInteger x = (of_int \<lfloor>x\<rfloor> = x \<and> \<bar>x\<bar> \<le> 2 ^ 53 - 1)"

section \<open>Collection primitives\<close>

text \<open>\<^verbatim>\<open>findOne(filter)\<close> is \<^const>\<open>find\<close>. \<^verbatim>\<open>updateOne(filter, update)\<close> changes the first match.\<close>

fun updateOne :: "('a \<Rightarrow> bool) \<Rightarrow> ('a \<Rightarrow> 'a) \<Rightarrow> 'a list \<Rightarrow> 'a list" where
  "updateOne P f [] = []"
| "updateOne P f (x # xs) = (if P x then f x # xs else x # updateOne P f xs)"

text \<open>\<^verbatim>\<open>findOneAndUpdate(filter, update, {new: true})\<close>: the updated document or null, and the collection.\<close>

definition findOneAndUpdate :: "('a \<Rightarrow> bool) \<Rightarrow> ('a \<Rightarrow> 'a) \<Rightarrow> 'a list \<Rightarrow> 'a option \<times> 'a list" where
  "findOneAndUpdate P f xs =
     (case find P xs of
        None \<Rightarrow> (None, xs)
      | Some x \<Rightarrow> (Some (f x), updateOne P f xs))"

text \<open>\<^verbatim>\<open>create\<close> on a collection with a unique index: \<open>dup\<close> tells which stored documents clash with the new one.\<close>

definition create :: "string \<Rightarrow> ('a \<Rightarrow> bool) \<Rightarrow> 'a \<Rightarrow> 'a list \<Rightarrow> error + 'a list" where
  "create coll dup d xs = (if list_ex dup xs then Inl (DuplicateKey coll) else Inr (xs @ [d]))"

section \<open>String building\<close>

definition digit_char :: "nat \<Rightarrow> char" where
  "digit_char d =
     (if d = 0 then CHR ''0'' else if d = 1 then CHR ''1'' else if d = 2 then CHR ''2''
      else if d = 3 then CHR ''3'' else if d = 4 then CHR ''4'' else if d = 5 then CHR ''5''
      else if d = 6 then CHR ''6'' else if d = 7 then CHR ''7'' else if d = 8 then CHR ''8''
      else CHR ''9'')"

text \<open>The decimal rendering of a number inside a template literal.\<close>

function string_of_nat :: "nat \<Rightarrow> string" where
  "string_of_nat n = (if n < 10 then [digit_char n] else string_of_nat (n div 10) @ [digit_char (n mod 10)])"
  by pat_completeness auto
termination
  by (relation "measure id") auto

declare string_of_nat.simps [simp del]

section \<open>The steps of \<^verbatim>\<open>executeMintFlow\<close>\<close>

text \<open>
  Inside the transaction every step works on the session's view \<open>t\<close> of the store, which
  starts as the committed store. A step that throws yields \<open>Inl\<close>.
\<close>

subsection \<open>Step 1: lock credits (lines 33 to 51)\<close>

text \<open>The filter \<^verbatim>\<open>{ userId, balance: { $gte: priceCredits } }\<close> and the update of lines 35 to 38.\<close>

definition hasCredits :: "string \<Rightarrow> payload \<Rightarrow> wallet \<Rightarrow> bool" where
  "hasCredits uid p w = (w_userId w = uid \<and> priceCredits p \<le> balance w)"

definition lockUpdate :: "env \<Rightarrow> payload \<Rightarrow> wallet \<Rightarrow> wallet" where
  "lockUpdate ev p w =
     w\<lparr>balance := jsAdd (balance w) (- priceCredits p),
       lockedBalance := jsAdd (lockedBalance w) (priceCredits p),
       updatedAt := newDate ev\<rparr>"

definition lockCredits :: "env \<Rightarrow> string \<Rightarrow> payload \<Rightarrow> db \<Rightarrow> error + (wallet \<times> db)" where
  "lockCredits ev uid p t =
     (case findOneAndUpdate (hasCredits uid p) (lockUpdate ev p) (wallets t) of
        (None, ws) \<Rightarrow> Inl INSUFFICIENT_CREDITS
      | (Some w, ws) \<Rightarrow> Inr (w, t\<lparr>wallets := ws\<rparr>))"

definition CreditLedger_create :: "indexes \<Rightarrow> ledger_entry \<Rightarrow> db \<Rightarrow> error + db" where
  "CreditLedger_create ix e t =
     (case create ''creditledgers''
             (\<lambda>x. ledgerKeyUnique ix \<and> le_idempotencyKey x = le_idempotencyKey e) e (ledger t) of
        Inl err \<Rightarrow> Inl err
      | Inr l \<Rightarrow> Inr (t\<lparr>ledger := l\<rparr>))"

definition lockLedgerEntry :: "env \<Rightarrow> string \<Rightarrow> payload \<Rightarrow> ledger_entry" where
  "lockLedgerEntry ev uid p =
     \<lparr>le_id = newObjectId ev 0, le_userId = uid, le_type = CREDIT_LOCK,
      le_amount = priceCredits p, le_direction = DEBIT,
      le_referenceId = DraftRef (assetDraftId p),
      le_idempotencyKey = ''lock-'' @ idempotencyKey p\<rparr>"

subsection \<open>Step 2: initialize the request (lines 54 to 58)\<close>

definition MintRequest_create :: "indexes \<Rightarrow> mint_request \<Rightarrow> db \<Rightarrow> error + db" where
  "MintRequest_create ix r t =
     (case create ''mintrequests''
             (\<lambda>x. requestKeyUnique ix \<and> rq_userId x = rq_userId r
                   \<and> idempotencyKey (rq_payload x) = idempotencyKey (rq_payload r)) r (requests t) of
        Inl err \<Rightarrow> Inl err
      | Inr l \<Rightarrow> Inr (t\<lparr>requests := l\<rparr>))"

definition processingRequest :: "env \<Rightarrow> string \<Rightarrow> payload \<Rightarrow> mint_request" where
  "processingRequest ev uid p =
     \<lparr>rq_id = newObjectId ev 1, rq_payload = p, rq_userId = uid,
      rq_status = PROCESSING, rq_error = None\<rparr>"

text \<open>Steps 1 and 2 together: everything the transaction does before it calls the generator.\<close>

definition lockAndRecord :: "indexes \<Rightarrow> env \<Rightarrow> string \<Rightarrow> payload \<Rightarrow> db \<Rightarrow> error + db" where
  "lockAndRecord ix ev uid p s =
     (case lockCredits ev uid p s of
        Inl e \<Rightarrow> Inl e
      | Inr (wallet, t1) \<Rightarrow>
          (case CreditLedger_create ix (lockLedgerEntry ev uid p) t1 of
             Inl e \<Rightarrow> Inl e
           | Inr t2 \<Rightarrow> MintRequest_create ix (processingRequest ev uid p) t2))"

subsection \<open>Step 3: generate the image (lines 61 to 82)\<close>

definition prompt :: "payload \<Rightarrow> string" where
  "prompt p =
     ''A futuristic accountability artifact based on the concept: '' @ concept (meta p)
     @ ''. Theme: '' @ theme (meta p) @ ''. High detail, cinematic lighting.''"

text \<open>
  \<^verbatim>\<open>imageResponse.candidates[0].content.parts\<close>, iterated by \<^verbatim>\<open>for ... of\<close>: reading a property of
  undefined, or iterating undefined, throws a \<^verbatim>\<open>TypeError\<close>; the message texts are those of
  Node's engine.
\<close>

definition responseParts :: "response \<Rightarrow> error + part list" where
  "responseParts r =
     (case candidates r of
        None \<Rightarrow> Inl (TypeError ''Cannot read properties of undefined (reading '0')'')
      | Some [] \<Rightarrow> Inl (TypeError ''Cannot read properties of undefined (reading 'content')'')
      | Some (c # cs) \<Rightarrow>
          (case content c of
             None \<Rightarrow> Inl (TypeError ''Cannot read properties of undefined (reading 'parts')'')
           | Some ct \<Rightarrow>
               (case parts ct of
                  None \<Rightarrow> Inl (TypeError ''imageResponse.candidates[0].content.parts is not iterable'')
                | Some ps \<Rightarrow> Inr ps)))"

text \<open>
  The loop of lines 74 to 80: the first part that has \<^verbatim>\<open>inlineData\<close> decides, and the loop
  breaks there; \<^verbatim>\<open>data\<close> that is undefined is as falsy as the empty string.
\<close>

fun base64Image :: "part list \<Rightarrow> string" where
  "base64Image [] = []"
| "base64Image (pt # ps) =
     (case inlineData pt of
        None \<Rightarrow> base64Image ps
      | Some i \<Rightarrow> (case data i of None \<Rightarrow> [] | Some d \<Rightarrow> d))"

definition generateImage :: "env \<Rightarrow> payload \<Rightarrow> error + string" where
  "generateImage ev p =
     (case generateContent ev (prompt p) of
        Rejected m \<Rightarrow> Inl (ProviderError m)
      | Resolved r \<Rightarrow>
          (case responseParts r of
             Inl e \<Rightarrow> Inl e
           | Inr ps \<Rightarrow>
               (if base64Image ps = [] then Inl IMAGE_GENERATION_FAILED
                else Inr (base64Image ps))))"

subsection \<open>Steps 4 and 5: mint and store the asset (lines 86 to 102)\<close>

definition mintTokenId :: "env \<Rightarrow> string" where
  "mintTokenId ev = ''TOK-'' @ string_of_nat (dateNow ev) @ ''-'' @ string_of_nat (randomThousand ev)"

definition mintTxHash :: "env \<Rightarrow> string" where
  "mintTxHash ev = ''0x-internal-'' @ randomHex ev"

definition mintedAsset :: "env \<Rightarrow> string \<Rightarrow> payload \<Rightarrow> string \<Rightarrow> nft_asset" where
  "mintedAsset ev uid p b64 =
     \<lparr>as_id = newObjectId ev 2,
      tokenId = mintTokenId ev,
      as_collectionId = collectionId p,
      as_chain = chain p,
      metadataUri = ''dpal://metadata/'' @ mintTokenId ev,
      imageUri = ''/api/assets/'' @ mintTokenId ev @ ''.png'',
      as_attributes = (case attributes p of None \<Rightarrow> [] | Some xs \<Rightarrow> xs),
      createdByUserId = uid,
      as_status = MINTED,
      imageData = Some (bufferFromBase64 ev b64)\<rparr>"

text \<open>
  \<^verbatim>\<open>NftAssetSchema\<close>: the fields marked \<^verbatim>\<open>required\<close> (a required string must not be empty),
  the cast of \<^verbatim>\<open>createdByUserId\<close> to an \<^verbatim>\<open>ObjectId\<close> (the string must be 24 hexadecimal
  digits) and the unique index on \<^verbatim>\<open>tokenId\<close>.
\<close>

definition isHexDigit :: "char \<Rightarrow> bool" where
  "isHexDigit c = (c \<in> set ''0123456789abcdefABCDEF'')"

definition castsToObjectId :: "string \<Rightarrow> bool" where
  "castsToObjectId u = (length u = 24 \<and> list_all isHexDigit u)"

definition NftAsset_valid :: "nft_asset \<Rightarrow> bool" where
  "NftAsset_valid a =
     (tokenId a \<noteq> [] \<and> as_collectionId a \<noteq> [] \<and> as_chain a \<noteq> []
      \<and> metadataUri a \<noteq> [] \<and> imageUri a \<noteq> [] \<and> castsToObjectId (createdByUserId a))"

definition NftAsset_create :: "nft_asset \<Rightarrow> db \<Rightarrow> error + db" where
  "NftAsset_create a t =
     (if NftAsset_valid a then
        (case create ''nftassets'' (\<lambda>x. tokenId x = tokenId a) a (assets t) of
           Inl err \<Rightarrow> Inl err
         | Inr l \<Rightarrow> Inr (t\<lparr>assets := l\<rparr>))
      else Inl (ValidationError ''NftAsset validation failed''))"

subsection \<open>Step 6: settle credits (lines 105 to 118)\<close>

definition ownedBy :: "string \<Rightarrow> wallet \<Rightarrow> bool" where
  "ownedBy uid w = (w_userId w = uid)"

definition settleUpdate :: "payload \<Rightarrow> wallet \<Rightarrow> wallet" where
  "settleUpdate p w = w\<lparr>lockedBalance := jsAdd (lockedBalance w) (- priceCredits p)\<rparr>"

definition settleCredits :: "string \<Rightarrow> payload \<Rightarrow> db \<Rightarrow> db" where
  "settleCredits uid p t = t\<lparr>wallets := updateOne (ownedBy uid) (settleUpdate p) (wallets t)\<rparr>"

definition spendLedgerEntry :: "env \<Rightarrow> string \<Rightarrow> payload \<Rightarrow> ledger_entry" where
  "spendLedgerEntry ev uid p =
     \<lparr>le_id = newObjectId ev 3, le_userId = uid, le_type = CREDIT_SPEND,
      le_amount = priceCredits p, le_direction = DEBIT,
      le_referenceId = RequestRef (rq_id (processingRequest ev uid p)),
      le_idempotencyKey = ''spend-'' @ idempotencyKey p\<rparr>"

subsection \<open>Step 7: the receipt (lines 121 to 133)\<close>

definition finalReceipt :: "env \<Rightarrow> string \<Rightarrow> payload \<Rightarrow> nft_asset \<Rightarrow> mint_receipt" where
  "finalReceipt ev uid p asset =
     \<lparr>rc_id = newObjectId ev 4,
      rc_mintRequestId = rq_id (processingRequest ev uid p),
      rc_userId = uid,
      rc_tokenId = mintTokenId ev,
      rc_txHash = mintTxHash ev,
      rc_chain = chain p,
      rc_metadataUri = metadataUri asset,
      rc_imageUri = imageUri asset,
      rc_priceCredits = priceCredits p,
      rc_ledgerEntryId = le_id (lockLedgerEntry ev uid p),
      rc_idempotencyKey = None\<rparr>"

definition MintReceipt_create :: "indexes \<Rightarrow> mint_receipt \<Rightarrow> db \<Rightarrow> error + db" where
  "MintReceipt_create ix r t =
     (case create ''mintreceipts''
             (\<lambda>x. receiptKeyUnique ix \<and> rc_userId x = rc_userId r
                   \<and> rc_idempotencyKey x = rc_idempotencyKey r) r (receipts t) of
        Inl err \<Rightarrow> Inl err
      | Inr l \<Rightarrow> Inr (t\<lparr>receipts := l\<rparr>))"

definition completeRequest :: "env \<Rightarrow> string \<Rightarrow> payload \<Rightarrow> db \<Rightarrow> db" where
  "completeRequest ev uid p t =
     t\<lparr>requests := updateOne (\<lambda>r. rq_id r = rq_id (processingRequest ev uid p))
                      (\<lambda>r. r\<lparr>rq_status := COMPLETED\<rparr>) (requests t)\<rparr>"

subsection \<open>Step 8: the audit event (lines 136 to 143)\<close>

definition mintAudit :: "env \<Rightarrow> string \<Rightarrow> payload \<Rightarrow> nft_asset \<Rightarrow> audit_event" where
  "mintAudit ev uid p asset =
     \<lparr>au_id = newObjectId ev 5, au_actorUserId = uid, au_action = ''NFT_MINT'',
      au_entityType = ''NftAsset'', au_entityId = as_id asset, au_hash = mintTxHash ev,
      au_priceCredits = priceCredits p, au_tokenId = mintTokenId ev\<rparr>"

definition AuditEvent_create :: "audit_event \<Rightarrow> db \<Rightarrow> db" where
  "AuditEvent_create a t = t\<lparr>audits := audits t @ [a]\<rparr>"

text \<open>Steps 4 to 8 together: everything the transaction does once it has the image.\<close>

definition mintAndSettle :: "indexes \<Rightarrow> env \<Rightarrow> string \<Rightarrow> payload \<Rightarrow> string \<Rightarrow> db \<Rightarrow> error + (mint_receipt \<times> db)" where
  "mintAndSettle ix ev uid p b64 t3 =
     (case NftAsset_create (mintedAsset ev uid p b64) t3 of
        Inl e \<Rightarrow> Inl e
      | Inr t4 \<Rightarrow>
          (case CreditLedger_create ix (spendLedgerEntry ev uid p) (settleCredits uid p t4) of
             Inl e \<Rightarrow> Inl e
           | Inr t6 \<Rightarrow>
               (case MintReceipt_create ix (finalReceipt ev uid p (mintedAsset ev uid p b64)) t6 of
                  Inl e \<Rightarrow> Inl e
                | Inr t7 \<Rightarrow>
                    Inr (finalReceipt ev uid p (mintedAsset ev uid p b64),
                         AuditEvent_create (mintAudit ev uid p (mintedAsset ev uid p b64))
                           (completeRequest ev uid p t7)))))"

section \<open>\<^verbatim>\<open>executeMintFlow\<close> and \<^verbatim>\<open>serveAssetImage\<close>\<close>

text \<open>The body of the \<^verbatim>\<open>try\<close> block: the receipt and the session's view to commit, or the error thrown.\<close>

definition mintTransaction :: "indexes \<Rightarrow> env \<Rightarrow> string \<Rightarrow> payload \<Rightarrow> db \<Rightarrow> error + (mint_receipt \<times> db)" where
  "mintTransaction ix ev uid p s =
     (case lockAndRecord ix ev uid p s of
        Inl e \<Rightarrow> Inl e
      | Inr t3 \<Rightarrow>
          (case generateImage ev p of
             Inl e \<Rightarrow> Inl e
           | Inr b64 \<Rightarrow> mintAndSettle ix ev uid p b64 t3))"

text \<open>
  The \<^verbatim>\<open>catch\<close> block after \<^verbatim>\<open>abortTransaction\<close> (lines 154 to 159): an \<^verbatim>\<open>updateOne\<close> without the
  session, on the committed store; when it throws, the error is ignored.
\<close>

definition annotateFailure :: "env \<Rightarrow> string \<Rightarrow> payload \<Rightarrow> error \<Rightarrow> db \<Rightarrow> db" where
  "annotateFailure ev uid p e s =
     (if annotationThrows ev then s
      else s\<lparr>requests := updateOne
                (\<lambda>r. rq_userId r = uid \<and> idempotencyKey (rq_payload r) = idempotencyKey p)
                (\<lambda>r. r\<lparr>rq_status := FAILED, rq_error := Some (message e)\<rparr>) (requests s)\<rparr>)"

text \<open>The lookup of line 21.\<close>

definition existingReceipt :: "string \<Rightarrow> payload \<Rightarrow> db \<Rightarrow> mint_receipt option" where
  "existingReceipt uid p s =
     find (\<lambda>r. rc_userId r = uid \<and> rc_idempotencyKey r = Some (idempotencyKey p)) (receipts s)"

text \<open>
  The result and the committed store after the call. A commit makes the session's view the
  store; an abort leaves the store as it was before the transaction started.
\<close>

definition executeMintFlow :: "indexes \<Rightarrow> env \<Rightarrow> string \<Rightarrow> payload \<Rightarrow> db \<Rightarrow> (error + mint_receipt) \<times> db" where
  "executeMintFlow ix ev uid p s =
     (case existingReceipt uid p s of
        Some r \<Rightarrow> (Inr r, s)
      | None \<Rightarrow>
          (case mintTransaction ix ev uid p s of
             Inr (receipt, t) \<Rightarrow> (Inr receipt, t)
           | Inl e \<Rightarrow> (Inl e, annotateFailure ev uid p e s)))"

definition serveAssetImage :: "string \<Rightarrow> db \<Rightarrow> (error + (byte list \<times> string)) \<times> db" where
  "serveAssetImage tid s =
     (case find (\<lambda>a. tokenId a = tid) (assets s) of
        None \<Rightarrow> (Inl ASSET_NOT_FOUND, s)
      | Some asset \<Rightarrow>
          (case imageData asset of
             None \<Rightarrow> (Inl ASSET_NOT_FOUND, s)
           | Some b \<Rightarrow> (Inr (b, ''image/png''), s)))"

section \<open>Concrete stores and calls\<close>

text \<open>
  The scenarios of the spec's testable properties: one user with 100 credits (or 10), a mint
  priced at 30, and a generator that answers with one text part and one image part.
\<close>

definition user1 :: string where
  "user1 = ''507f1f77bcf86cd799439011''"

definition payload1 :: payload where
  "payload1 =
     \<lparr>idempotencyKey = ''k1'', meta = \<lparr>concept = ''river'', theme = ''civic''\<rparr>,
      assetDraftId = ''draft-1'', collectionId = ''col-1'', chain = ''internal'',
      priceCredits = 30, attributes = None\<rparr>"

definition store100 :: db where
  "store100 =
     \<lparr>wallets = [\<lparr>w_userId = user1, balance = 100, lockedBalance = 0, updatedAt = 0\<rparr>],
      ledger = [], requests = [], receipts = [], assets = [], audits = []\<rparr>"

definition store10 :: db where
  "store10 =
     \<lparr>wallets = [\<lparr>w_userId = user1, balance = 10, lockedBalance = 0, updatedAt = 0\<rparr>],
      ledger = [], requests = [], receipts = [], assets = [], audits = []\<rparr>"

definition imageResponse :: gen_outcome where
  "imageResponse =
     Resolved (Response (Some [Candidate (Some (Content (Some
       [Part None, Part (Some (InlineData (Some ''AAEC'')))])))]))"

definition emptyResponse :: gen_outcome where
  "emptyResponse = Resolved (Response (Some [Candidate (Some (Content (Some [Part None])))]))"

definition env1 :: env where
  "env1 =
     \<lparr>newDate = 1730, dateNow = 1731, randomThousand = 7, randomHex = ''a3f1'',
      generateContent = (\<lambda>_. imageResponse), bufferFromBase64 = (\<lambda>_. [0, 1, 2]),
      newObjectId = (\<lambda>k. 10 + k), annotationThrows = False\<rparr>"

text \<open>A later call: a later clock, other random draws, fresh ids.\<close>

definition env2 :: env where
  "env2 =
     \<lparr>newDate = 1840, dateNow = 1841, randomThousand = 512, randomHex = ''9c0e'',
      generateContent = (\<lambda>_. imageResponse), bufferFromBase64 = (\<lambda>_. [0, 1, 2]),
      newObjectId = (\<lambda>k. 20 + k), annotationThrows = False\<rparr>"

definition noIndexes :: indexes where
  "noIndexes = \<lparr>ledgerKeyUnique = False, requestKeyUnique = False, receiptKeyUnique = False\<rparr>"

definition specIndexes :: indexes where
  "specIndexes = \<lparr>ledgerKeyUnique = True, requestKeyUnique = True, receiptKeyUnique = True\<rparr>"

text \<open>The receipt and the store that the first mint of \<open>payload1\<close> leaves behind.\<close>

definition receipt1 :: mint_receipt where
  "receipt1 =
     \<lparr>rc_id = 14, rc_mintRequestId = 11, rc_userId = user1, rc_tokenId = ''TOK-1731-7'',
      rc_txHash = ''0x-internal-a3f1'', rc_chain = ''internal'',
      rc_metadataUri = ''dpal://metadata/TOK-1731-7'',
      rc_imageUri = ''/api/assets/TOK-1731-7.png'', rc_priceCredits = 30,
      rc_ledgerEntryId = 10, rc_idempotencyKey = None\<rparr>"

definition asset1 :: nft_asset where
  "asset1 =
     \<lparr>as_id = 12, tokenId = ''TOK-1731-7'', as_collectionId = ''col-1'', as_chain = ''internal'',
      metadataUri = ''dpal://metadata/TOK-1731-7'', imageUri = ''/api/assets/TOK-1731-7.png'',
      as_attributes = [], createdByUserId = user1, as_status = MINTED,
      imageData = Some [0, 1, 2]\<rparr>"

definition minted1 :: db where
  "minted1 =
     \<lparr>wallets = [\<lparr>w_userId = user1, balance = 70, lockedBalance = 0, updatedAt = 1730\<rparr>],
      ledger =
        [\<lparr>le_id = 10, le_userId = user1, le_type = CREDIT_LOCK, le_amount = 30,
          le_direction = DEBIT, le_referenceId = DraftRef ''draft-1'',
          le_idempotencyKey = ''lock-k1''\<rparr>,
         \<lparr>le_id = 13, le_userId = user1, le_type = CREDIT_SPEND, le_amount = 30,
          le_direction = DEBIT, le_referenceId = RequestRef 11,
          le_idempotencyKey = ''spend-k1''\<rparr>],
      requests =
        [\<lparr>rq_id = 11, rq_payload = payload1, rq_userId = user1, rq_status = COMPLETED,
          rq_error = None\<rparr>],
      receipts = [receipt1],
      assets = [asset1],
      audits =
        [\<lparr>au_id = 15, au_actorUserId = user1, au_action = ''NFT_MINT'',
          au_entityType = ''NftAsset'', au_entityId = 12, au_hash = ''0x-internal-a3f1'',
          au_priceCredits = 30, au_tokenId = ''TOK-1731-7''\<rparr>]\<rparr>"

text \<open>The same call with a generator that answers without an image, and with one that rejects.\<close>

definition emptyEnv :: env where
  "emptyEnv = env1\<lparr>generateContent := (\<lambda>_. emptyResponse)\<rparr>"

definition rejectingEnv :: env where
  "rejectingEnv = env1\<lparr>generateContent := (\<lambda>_. Rejected ''fetch failed'')\<rparr>"

text \<open>
  Stores and prices on which the number arithmetic rounds: a locked balance of \<open>2 ^ 53\<close> with
  a price of 1, and a balance of 0.9 with a price of 0.2 (the doubles nearest to them). And a
  store with two wallet documents for one user.
\<close>

definition payloadUnit :: payload where
  "payloadUnit = payload1\<lparr>priceCredits := 1\<rparr>"

definition bigLockStore :: db where
  "bigLockStore =
     store100\<lparr>wallets := [\<lparr>w_userId = user1, balance = 100,
                             lockedBalance = 9007199254740992, updatedAt = 0\<rparr>]\<rparr>"

definition payloadFraction :: payload where
  "payloadFraction = payload1\<lparr>priceCredits := 3602879701896397 / 18014398509481984\<rparr>"

definition fractionStore :: db where
  "fractionStore =
     store100\<lparr>wallets := [\<lparr>w_userId = user1, balance = 8106479329266893 / 9007199254740992,
                             lockedBalance = 0, updatedAt = 0\<rparr>]\<rparr>"

definition twoWalletStore :: db where
  "twoWalletStore =
     store100\<lparr>wallets := [\<lparr>w_userId = user1, balance = 10, lockedBalance = 0, updatedAt = 0\<rparr>,
                           \<lparr>w_userId = user1, balance = 100, lockedBalance = 0, updatedAt = 0\<rparr>]\<rparr>"

text \<open>An asset document without image bytes, which the schema admits, and a store that holds it.\<close>

definition draftAsset :: nft_asset where
  "draftAsset =
     \<lparr>as_id = 40, tokenId = ''TOK-1600-1'', as_collectionId = ''col-1'', as_chain = ''internal'',
      metadataUri = ''dpal://metadata/TOK-1600-1'', imageUri = ''/api/assets/TOK-1600-1.png'',
      as_attributes = [], createdByUserId = user1, as_status = DRAFT, imageData = None\<rparr>"

definition draftStore :: db where
  "draftStore = minted1\<lparr>assets := [asset1, draftAsset]\<rparr>"

section \<open>Sequences of calls\<close>

text \<open>The store after a sequence of calls of \<^verbatim>\<open>executeMintFlow\<close>, one after the other.\<close>

record mint_call =
  callEnv :: env
  callUser :: string
  callPayload :: payload

fun runMintCalls :: "indexes \<Rightarrow> mint_call list \<Rightarrow> db \<Rightarrow> db" where
  "runMintCalls ix [] s = s"
| "runMintCalls ix (c # cs) s =
     runMintCalls ix cs (snd (executeMintFlow ix (callEnv c) (callUser c) (callPayload c) s))"

section \<open>Lemmas about the steps\<close>

text \<open>A whole number of magnitude at most \<open>2 ^ 53\<close> is a double: rounding leaves it as it is.\<close>

lemma roundHalfEven_of_int: "roundHalfEven (of_int j) = j"
  by (simp add: roundHalfEven_def)

lemma floorLog2_of_int:
  assumes "0 < n"
  shows "floorLog2 (of_int n) = bitlen n - 1"
proof -
  from bitlen_bounds [OF assms] have b: "2 ^ nat (bitlen n - 1) \<le> n" by simp
  from assms have p: "1 \<le> bitlen n" by (auto simp: bitlen_alt_def)
  have "(2::rat) ^ nat (bitlen n - 1) = of_int (2 ^ nat (bitlen n - 1))" by simp
  also have "\<dots> \<le> of_int n" using b by (simp only: of_int_le_iff)
  finally have "pow2 (bitlen n - 1) \<le> of_int n"
    using p by (simp add: pow2_def)
  moreover have "bitlen 1 = 1" by (simp add: bitlen_alt_def)
  ultimately show ?thesis
    by (simp add: floorLog2_def)
qed

lemma jsRound_pos_int:
  assumes "0 < m" and "m \<le> 2 ^ 53"
  shows "jsRound (of_int m) = of_int m"
proof -
  define L where "L = bitlen m - 1"
  from assms(1) have L0: "0 \<le> L" by (auto simp: L_def bitlen_alt_def)
  from bitlen_bounds [OF assms(1)] have lo: "2 ^ nat L \<le> m" by (simp add: L_def)
  have L53: "L \<le> 53"
  proof (rule ccontr)
    assume "\<not> L \<le> 53"
    then have "54 \<le> nat L" by simp
    then have "(2::int) ^ 54 \<le> 2 ^ nat L" by (intro power_increasing) simp_all
    with lo assms(2) show False by simp
  qed
  have fl: "floorLog2 (of_int m) = L"
    using floorLog2_of_int [OF assms(1)] by (simp add: L_def)
  have e: "max (L - 52) (- 1074) = L - 52" using L0 by simp
  have js: "jsRound (of_int m)
              = of_int (roundHalfEven (of_int m / pow2 (L - 52))) * pow2 (L - 52)"
    using assms(1) by (simp add: jsRound_def Let_def fl e)
  show ?thesis
  proof (cases "L \<le> 52")
    case True
    define k where "k = nat (52 - L)"
    have pw: "pow2 (L - 52) = 1 / 2 ^ k"
      using True by (cases "L = 52") (simp_all add: pow2_def k_def)
    have "(of_int m :: rat) / pow2 (L - 52) = of_int (m * 2 ^ k)"
      by (simp add: pw)
    then have "roundHalfEven (of_int m / pow2 (L - 52)) = m * 2 ^ k"
      by (simp only: roundHalfEven_of_int)
    then show ?thesis
      by (simp add: js pw)
  next
    case False
    with L53 have L: "L = 53" by simp
    with lo assms(2) have m: "m = 2 ^ 53" by simp
    have pw: "pow2 (L - 52) = 2" by (simp add: L pow2_def)
    have "(of_int m :: rat) / pow2 (L - 52) = of_int (2 ^ 52)"
      by (simp add: pw m)
    then have r: "roundHalfEven (of_int m / pow2 (L - 52)) = 2 ^ 52"
      by (simp only: roundHalfEven_of_int)
    have "jsRound (of_int m) = of_int (2 ^ 52) * pow2 (L - 52)"
      by (simp only: js r)
    also have "\<dots> = of_int (2 ^ 52) * 2"
      by (simp only: pw)
    also have "\<dots> = of_int m"
      by (simp add: m)
    finally show ?thesis .
  qed
qed

lemma jsRound_neg: "jsRound (- x) = - jsRound x"
  by (simp add: jsRound_def Let_def)

lemma jsRound_of_int:
  assumes "\<bar>n\<bar> \<le> 2 ^ 53"
  shows "jsRound (of_int n) = of_int n"
proof -
  consider "n = 0" | "0 < n" | "n < 0" by linarith
  then show ?thesis
  proof cases
    case 1 then show ?thesis by (simp add: jsRound_def)
  next
    case 2 with assms show ?thesis by (intro jsRound_pos_int) simp_all
  next
    case 3
    with assms have "jsRound (of_int (- n)) = of_int (- n)" by (intro jsRound_pos_int) simp_all
    then show ?thesis by (simp add: jsRound_neg)
  qed
qed

lemma jsRound_integer:
  assumes "of_int \<lfloor>x\<rfloor> = x" and "\<bar>x\<bar> \<le> 2 ^ 53"
  shows "jsRound x = x"
proof -
  from assms(2) have "\<bar>of_int \<lfloor>x\<rfloor> :: rat\<bar> \<le> of_int (2 ^ 53)" by (simp add: assms(1))
  then have "\<bar>\<lfloor>x\<rfloor>\<bar> \<le> 2 ^ 53" by (simp only: of_int_abs [symmetric] of_int_le_iff)
  from jsRound_of_int [OF this] show ?thesis by (simp add: assms(1))
qed

lemmas step_defs =
  executeMintFlow_def existingReceipt_def mintTransaction_def lockAndRecord_def lockCredits_def
  findOneAndUpdate_def hasCredits_def lockUpdate_def CreditLedger_create_def create_def
  lockLedgerEntry_def MintRequest_create_def processingRequest_def generateImage_def
  responseParts_def prompt_def mintAndSettle_def NftAsset_create_def NftAsset_valid_def
  castsToObjectId_def isHexDigit_def
  mintedAsset_def mintTokenId_def mintTxHash_def settleCredits_def ownedBy_def settleUpdate_def
  spendLedgerEntry_def finalReceipt_def MintReceipt_create_def completeRequest_def
  mintAudit_def AuditEvent_create_def annotateFailure_def

lemmas flow_defs = step_defs jsAdd_def jsRound_integer

lemmas scenario_defs =
  user1_def payload1_def store100_def store10_def imageResponse_def emptyResponse_def
  env1_def env2_def noIndexes_def specIndexes_def receipt1_def asset1_def minted1_def
  emptyEnv_def rejectingEnv_def draftAsset_def draftStore_def
  payloadUnit_def bigLockStore_def payloadFraction_def fractionStore_def twoWalletStore_def

lemma annotateFailure_fields:
  "wallets (annotateFailure ev uid p e s) = wallets s"
  "ledger (annotateFailure ev uid p e s) = ledger s"
  "receipts (annotateFailure ev uid p e s) = receipts s"
  "assets (annotateFailure ev uid p e s) = assets s"
  "audits (annotateFailure ev uid p e s) = audits s"
  by (simp_all add: annotateFailure_def)

lemma updateOne_map_key:
  "(\<And>x. k (f x) = k x) \<Longrightarrow> map k (updateOne P f xs) = map k xs"
  by (induction xs) simp_all

lemma annotateFailure_request_ids:
  "map rq_id (requests (annotateFailure ev uid p e s)) = map rq_id (requests s)"
  by (simp add: annotateFailure_def updateOne_map_key)

lemma executeMintFlow_abort:
  assumes "existingReceipt uid p s = None" and "mintTransaction ix ev uid p s = Inl e"
  shows "executeMintFlow ix ev uid p s = (Inl e, annotateFailure ev uid p e s)"
  using assms by (simp add: executeMintFlow_def)

lemma executeMintFlow_commit:
  assumes "existingReceipt uid p s = None" and "mintTransaction ix ev uid p s = Inr (r, t)"
  shows "executeMintFlow ix ev uid p s = (Inr r, t)"
  using assms by (simp add: executeMintFlow_def)

lemma mintTransaction_generation_fails:
  assumes "generateImage ev p = Inl g"
  shows "\<exists>e. mintTransaction ix ev uid p s = Inl e"
  using assms by (simp add: mintTransaction_def split: sum.splits)

lemma mintTransaction_generation_error:
  assumes "lockAndRecord ix ev uid p s = Inr t" and "generateImage ev p = Inl g"
  shows "mintTransaction ix ev uid p s = Inl g"
  using assms by (simp add: mintTransaction_def)

lemma find_None_findOneAndUpdate:
  "find P xs = None \<Longrightarrow> findOneAndUpdate P f xs = (None, xs)"
  by (simp add: findOneAndUpdate_def)

lemma lockCredits_insufficient:
  assumes "find (hasCredits uid p) (wallets s) = None"
  shows "lockCredits ev uid p s = Inl INSUFFICIENT_CREDITS"
  using assms by (simp add: lockCredits_def findOneAndUpdate_def)

lemma mintTransaction_insufficient:
  assumes "find (hasCredits uid p) (wallets s) = None"
  shows "mintTransaction ix ev uid p s = Inl INSUFFICIENT_CREDITS"
  using assms by (simp add: mintTransaction_def lockAndRecord_def lockCredits_insufficient)

lemma create_Inr: "create c dup d xs = Inr l \<Longrightarrow> l = xs @ [d] \<and> \<not> list_ex dup xs"
  by (simp add: create_def split: if_splits)

lemma lockCredits_Inr:
  assumes "lockCredits ev uid p s = Inr (w, t)"
  shows "\<exists>w0. find (hasCredits uid p) (wallets s) = Some w0 \<and> w = lockUpdate ev p w0
           \<and> t = s\<lparr>wallets := updateOne (hasCredits uid p) (lockUpdate ev p) (wallets s)\<rparr>"
  using assms by (auto simp: lockCredits_def findOneAndUpdate_def split: option.splits)

lemma lockAndRecord_Inr:
  assumes "lockAndRecord ix ev uid p s = Inr t"
  shows "\<exists>w0. find (hasCredits uid p) (wallets s) = Some w0
           \<and> t = s\<lparr>wallets := updateOne (hasCredits uid p) (lockUpdate ev p) (wallets s),
                   ledger := ledger s @ [lockLedgerEntry ev uid p],
                   requests := requests s @ [processingRequest ev uid p]\<rparr>"
proof -
  from assms obtain w t1 t2 where
    l: "lockCredits ev uid p s = Inr (w, t1)" and
    c: "CreditLedger_create ix (lockLedgerEntry ev uid p) t1 = Inr t2" and
    r: "MintRequest_create ix (processingRequest ev uid p) t2 = Inr t"
    by (auto simp: lockAndRecord_def split: sum.splits)
  from lockCredits_Inr [OF l] obtain w0 where
    w0: "find (hasCredits uid p) (wallets s) = Some w0" and
    t1: "t1 = s\<lparr>wallets := updateOne (hasCredits uid p) (lockUpdate ev p) (wallets s)\<rparr>"
    by blast
  from c have t2: "t2 = t1\<lparr>ledger := ledger t1 @ [lockLedgerEntry ev uid p]\<rparr>"
    by (auto simp: CreditLedger_create_def split: sum.splits dest: create_Inr)
  from r have t: "t = t2\<lparr>requests := requests t2 @ [processingRequest ev uid p]\<rparr>"
    by (auto simp: MintRequest_create_def split: sum.splits dest: create_Inr)
  show ?thesis using w0 by (simp add: t t2 t1)
qed

lemma mintAndSettle_Inr:
  assumes "mintAndSettle ix ev uid p b64 t3 = Inr (r, t)"
  shows "r = finalReceipt ev uid p (mintedAsset ev uid p b64)
       \<and> \<not> list_ex (\<lambda>x. tokenId x = mintTokenId ev) (assets t3)
       \<and> t = t3\<lparr>assets := assets t3 @ [mintedAsset ev uid p b64],
                 wallets := updateOne (ownedBy uid) (settleUpdate p) (wallets t3),
                 ledger := ledger t3 @ [spendLedgerEntry ev uid p],
                 receipts := receipts t3 @ [r],
                 requests := updateOne (\<lambda>x. rq_id x = rq_id (processingRequest ev uid p))
                               (\<lambda>x. x\<lparr>rq_status := COMPLETED\<rparr>) (requests t3),
                 audits := audits t3 @ [mintAudit ev uid p (mintedAsset ev uid p b64)]\<rparr>"
proof -
  let ?a = "mintedAsset ev uid p b64"
  obtain t4 where a: "NftAsset_create ?a t3 = Inr t4"
    using assms by (cases "NftAsset_create ?a t3") (simp_all add: mintAndSettle_def)
  obtain t6 where
    c: "CreditLedger_create ix (spendLedgerEntry ev uid p) (settleCredits uid p t4) = Inr t6"
    using assms a
    by (cases "CreditLedger_create ix (spendLedgerEntry ev uid p) (settleCredits uid p t4)")
       (simp_all add: mintAndSettle_def)
  obtain t7 where m: "MintReceipt_create ix (finalReceipt ev uid p ?a) t6 = Inr t7"
    using assms a c
    by (cases "MintReceipt_create ix (finalReceipt ev uid p ?a) t6")
       (simp_all add: mintAndSettle_def)
  have r: "r = finalReceipt ev uid p ?a"
    and t: "t = AuditEvent_create (mintAudit ev uid p ?a) (completeRequest ev uid p t7)"
    using assms a c m by (simp_all add: mintAndSettle_def)
  from a have t4: "t4 = t3\<lparr>assets := assets t3 @ [?a]\<rparr>"
    and fresh: "\<not> list_ex (\<lambda>x. tokenId x = mintTokenId ev) (assets t3)"
    by (auto simp: NftAsset_create_def mintedAsset_def split: sum.splits if_splits dest: create_Inr)
  from c have t6: "t6 = (settleCredits uid p t4)\<lparr>ledger := ledger t4 @ [spendLedgerEntry ev uid p]\<rparr>"
    by (auto simp: CreditLedger_create_def settleCredits_def split: sum.splits dest: create_Inr)
  from m have t7: "t7 = t6\<lparr>receipts := receipts t6 @ [r]\<rparr>"
    by (auto simp: MintReceipt_create_def r split: sum.splits dest: create_Inr)
  show ?thesis
    using fresh r by (simp add: t t7 t6 t4 settleCredits_def AuditEvent_create_def completeRequest_def)
qed

lemma mintTransaction_Inr:
  assumes "mintTransaction ix ev uid p s = Inr (r, t)"
  shows "\<exists>w0 b64. find (hasCredits uid p) (wallets s) = Some w0
       \<and> generateImage ev p = Inr b64
       \<and> r = finalReceipt ev uid p (mintedAsset ev uid p b64)
       \<and> \<not> list_ex (\<lambda>x. tokenId x = mintTokenId ev) (assets s)
       \<and> wallets t = updateOne (ownedBy uid) (settleUpdate p)
                        (updateOne (hasCredits uid p) (lockUpdate ev p) (wallets s))
       \<and> ledger t = ledger s @ [lockLedgerEntry ev uid p, spendLedgerEntry ev uid p]
       \<and> requests t = updateOne (\<lambda>x. rq_id x = rq_id (processingRequest ev uid p))
                         (\<lambda>x. x\<lparr>rq_status := COMPLETED\<rparr>)
                         (requests s @ [processingRequest ev uid p])
       \<and> receipts t = receipts s @ [r]
       \<and> assets t = assets s @ [mintedAsset ev uid p b64]
       \<and> audits t = audits s @ [mintAudit ev uid p (mintedAsset ev uid p b64)]"
proof -
  from assms obtain t3 b64 where
    l: "lockAndRecord ix ev uid p s = Inr t3" and
    g: "generateImage ev p = Inr b64" and
    m: "mintAndSettle ix ev uid p b64 t3 = Inr (r, t)"
    by (auto simp: mintTransaction_def split: sum.splits)
  from lockAndRecord_Inr [OF l] obtain w0 where
    w0: "find (hasCredits uid p) (wallets s) = Some w0" and
    t3: "t3 = s\<lparr>wallets := updateOne (hasCredits uid p) (lockUpdate ev p) (wallets s),
                   ledger := ledger s @ [lockLedgerEntry ev uid p],
                   requests := requests s @ [processingRequest ev uid p]\<rparr>"
    by blast
  from mintAndSettle_Inr [OF m] w0 g show ?thesis
    by (simp add: t3)
qed

lemma filter_single_find:
  "filter Q xs = [w] \<Longrightarrow> find Q xs = Some w"
  by (induction xs) (simp_all split: if_splits)

lemma filter_single_holds:
  assumes "filter Q xs = [w]"
  shows "Q w" and "w \<in> set xs"
proof -
  have "w \<in> set (filter Q xs)" by (simp add: assms)
  then show "Q w" and "w \<in> set xs" by simp_all
qed

lemma filter_single_updateOne:
  assumes "filter Q xs = [w]" and "find P xs = Some w" and "Q (f w)"
  shows "filter Q (updateOne P f xs) = [f w]"
  using assms
proof (induction xs)
  case Nil
  then show ?case by simp
next
  case (Cons y ys)
  from Cons.prems(1) have qw: "Q w"
    by (rule filter_single_holds)
  show ?case
  proof (cases "P y")
    case True
    with Cons.prems(2) have y: "y = w" by simp
    with Cons.prems(1) qw have "filter Q ys = []" by simp
    with True y Cons.prems(3) show ?thesis by simp
  next
    case False
    with Cons.prems(2) have f: "find P ys = Some w" by simp
    then have mem: "w \<in> set ys" by (auto simp: find_Some_iff)
    have nq: "\<not> Q y"
    proof
      assume "Q y"
      with Cons.prems(1) have "filter Q ys = []" by simp
      with mem qw show False by (simp add: filter_empty_conv)
    qed
    with Cons.prems(1) have "filter Q ys = [w]" by simp
    from Cons.IH [OF this f Cons.prems(3)] False nq show ?thesis by simp
  qed
qed

lemma settled_wallet:
  assumes "filter (ownedBy uid) xs = [w]" and "find (hasCredits uid p) xs = Some w0"
  shows "w0 = w"
    and "filter (ownedBy uid) (updateOne (ownedBy uid) (settleUpdate p)
            (updateOne (hasCredits uid p) (lockUpdate ev p) xs))
          = [settleUpdate p (lockUpdate ev p w)]"
proof -
  from assms(2) have "w0 \<in> set xs" and "ownedBy uid w0"
    by (auto simp: find_Some_iff hasCredits_def ownedBy_def)
  then have "w0 \<in> set (filter (ownedBy uid) xs)" by simp
  with assms(1) show w0: "w0 = w" by simp
  let ?ys = "updateOne (hasCredits uid p) (lockUpdate ev p) xs"
  from assms(1) have o: "ownedBy uid w"
    by (rule filter_single_holds)
  then have o1: "ownedBy uid (lockUpdate ev p w)"
    by (simp add: ownedBy_def lockUpdate_def)
  have o2: "ownedBy uid (settleUpdate p (lockUpdate ev p w))"
    using o1 by (simp add: ownedBy_def settleUpdate_def)
  have a: "filter (ownedBy uid) ?ys = [lockUpdate ev p w]"
    using assms(1) assms(2) [unfolded w0] o1 by (rule filter_single_updateOne)
  from a have "find (ownedBy uid) ?ys = Some (lockUpdate ev p w)"
    by (rule filter_single_find)
  with a show "filter (ownedBy uid) (updateOne (ownedBy uid) (settleUpdate p) ?ys)
          = [settleUpdate p (lockUpdate ev p w)]"
    using o2 by (rule filter_single_updateOne)
qed

lemma isSafeInteger_exact: "isSafeInteger x \<Longrightarrow> jsRound x = x"
  by (rule jsRound_integer) (simp_all add: isSafeInteger_def)

lemma settled_amounts:
  assumes "isSafeInteger (lockedBalance w)"
      and "isSafeInteger (balance w - priceCredits p)"
      and "isSafeInteger (lockedBalance w + priceCredits p)"
  shows "balance w = balance (settleUpdate p (lockUpdate ev p w)) + priceCredits p"
    and "lockedBalance (settleUpdate p (lockUpdate ev p w)) = lockedBalance w"
  using assms
  by (simp_all add: settleUpdate_def lockUpdate_def jsAdd_def isSafeInteger_exact)

lemma rounded_sums:
  "jsAdd 9007199254740992 1 = 9007199254740992"
  "jsAdd 9007199254740992 (- 1) = 9007199254740991"
  "jsAdd 100 (- 1) = 99"
  "jsAdd (8106479329266893 / 9007199254740992) (- (3602879701896397 / 18014398509481984))
     = 3152519739159347 / 4503599627370496"
  "jsAdd 0 (3602879701896397 / 18014398509481984) = 3602879701896397 / 18014398509481984"
  "jsAdd (3602879701896397 / 18014398509481984) (- (3602879701896397 / 18014398509481984)) = 0"
  by code_simp+


lemma executeMintFlow_Inr_miss:
  assumes "existingReceipt uid p s = None" and "executeMintFlow ix ev uid p s = (Inr r, s')"
  shows "mintTransaction ix ev uid p s = Inr (r, s')"
  using assms by (auto simp: executeMintFlow_def split: sum.splits)

lemma string_of_nat_1731: "string_of_nat 1731 = ''1731''" and string_of_nat_7: "string_of_nat 7 = ''7''"
  by (simp_all add: string_of_nat.simps digit_char_def)

lemma first_mint:
  "executeMintFlow specIndexes env1 user1 payload1 store100 = (Inr receipt1, minted1)"
  "executeMintFlow noIndexes env1 user1 payload1 store100 = (Inr receipt1, minted1)"
  by (simp_all add: flow_defs scenario_defs string_of_nat_1731 string_of_nat_7)

lemma colliding_mint:
  "executeMintFlow noIndexes env1 user1 payload1 minted1
     = (Inl (DuplicateKey ''nftassets''),
        minted1\<lparr>requests := [\<lparr>rq_id = 11, rq_payload = payload1, rq_userId = user1,
                    rq_status = FAILED,
                    rq_error = Some ''E11000 duplicate key error collection: nftassets''\<rparr>]\<rparr>)"
  by (simp add: flow_defs scenario_defs string_of_nat_1731 string_of_nat_7)

lemma executeMintFlow_assets:
  "assets (snd (executeMintFlow ix ev uid p s)) = assets s
   \<or> (\<exists>b64. assets (snd (executeMintFlow ix ev uid p s)) = assets s @ [mintedAsset ev uid p b64]
            \<and> \<not> list_ex (\<lambda>x. tokenId x = mintTokenId ev) (assets s))"
proof (cases "existingReceipt uid p s")
  case (Some r)
  then show ?thesis by (simp add: executeMintFlow_def)
next
  case None
  show ?thesis
  proof (cases "mintTransaction ix ev uid p s")
    case (Inl e)
    with None show ?thesis
      by (simp add: executeMintFlow_abort annotateFailure_fields)
  next
    case (Inr x)
    then obtain r t where x: "mintTransaction ix ev uid p s = Inr (r, t)"
      by (cases x) simp
    from mintTransaction_Inr [OF x] executeMintFlow_commit [OF None x]
    show ?thesis by auto
  qed
qed

lemma executeMintFlow_keeps_tokenIds:
  assumes "distinct (map tokenId (assets s))"
  shows "distinct (map tokenId (assets (snd (executeMintFlow ix ev uid p s))))"
proof -
  let ?s' = "snd (executeMintFlow ix ev uid p s)"
  from executeMintFlow_assets [of ix ev uid p s] consider
    (same) "assets ?s' = assets s"
  | (minted) b64 where "assets ?s' = assets s @ [mintedAsset ev uid p b64]"
      and "\<not> list_ex (\<lambda>x. tokenId x = mintTokenId ev) (assets s)"
    by blast
  then show ?thesis
  proof cases
    case same
    with assms show ?thesis by simp
  next
    case minted
    from minted(2) have "mintTokenId ev \<notin> tokenId ` set (assets s)"
      by (auto simp: list_ex_iff)
    moreover have "tokenId (mintedAsset ev uid p b64) = mintTokenId ev"
      by (simp add: mintedAsset_def)
    ultimately show ?thesis using assms minted(1) by simp
  qed
qed

lemma responseParts_Inl: "responseParts r = Inl e \<Longrightarrow> \<exists>m. e = TypeError m"
  by (auto simp: responseParts_def split: option.splits list.splits)

lemma lockAndRecord_store100:
  "lockAndRecord specIndexes emptyEnv user1 payload1 store100
     = Inr (store100\<lparr>wallets := [\<lparr>w_userId = user1, balance = 70, lockedBalance = 30, updatedAt = 1730\<rparr>],
             ledger := [lockLedgerEntry emptyEnv user1 payload1],
             requests := [processingRequest emptyEnv user1 payload1]\<rparr>)"
  by (simp add: lockAndRecord_def lockCredits_def findOneAndUpdate_def hasCredits_def lockUpdate_def
      CreditLedger_create_def MintRequest_create_def create_def scenario_defs
      jsAdd_def jsRound_integer)

lemma abort_rethrows_original_error:
  assumes "existingReceipt uid p s = None" and "mintTransaction ix ev uid p s = Inl e"
  shows "fst (executeMintFlow ix ev uid p s) = Inl e"
    and "annotationThrows ev \<Longrightarrow> snd (executeMintFlow ix ev uid p s) = s"
  using assms by (simp_all add: executeMintFlow_abort annotateFailure_def)

lemma idempotency_gate_hit:
  assumes "existingReceipt uid p s = Some r"
  shows "executeMintFlow ix ev uid p s = (Inr r, s)"
  using assms by (simp add: executeMintFlow_def)

section \<open>Atomicity\<close>

text \<open>
  Claim C2. Whenever the call finds no stored receipt, locks the funds and the generation step
  then fails, the call ends with an error and the committed wallets (hence every balance and
  locked balance), ledger entries, assets, receipts and audit events are those from before the
  call: every write made inside the transaction is undone by the abort.
\<close>

theorem atomicity_on_generation_failure:
  assumes "existingReceipt uid p s = None"
      and "lockCredits ev uid p s = Inr (w, t)"
      and "generateImage ev p = Inl g"
  shows "(\<exists>e. fst (executeMintFlow ix ev uid p s) = Inl e)
       \<and> wallets (snd (executeMintFlow ix ev uid p s)) = wallets s
       \<and> ledger (snd (executeMintFlow ix ev uid p s)) = ledger s
       \<and> assets (snd (executeMintFlow ix ev uid p s)) = assets s
       \<and> receipts (snd (executeMintFlow ix ev uid p s)) = receipts s
       \<and> audits (snd (executeMintFlow ix ev uid p s)) = audits s"
proof -
  obtain e where "mintTransaction ix ev uid p s = Inl e"
    using mintTransaction_generation_fails [OF assms(3)] by blast
  then have "executeMintFlow ix ev uid p s = (Inl e, annotateFailure ev uid p e s)"
    using assms(1) by (rule executeMintFlow_abort [rotated])
  then show ?thesis by (simp add: annotateFailure_fields)
qed

theorem atomicity_on_generation_failure_witness:
  "existingReceipt user1 payload1 store100 = None
   \<and> (\<exists>w t. lockCredits emptyEnv user1 payload1 store100 = Inr (w, t))
   \<and> generateImage emptyEnv payload1 = Inl IMAGE_GENERATION_FAILED
   \<and> fst (executeMintFlow specIndexes emptyEnv user1 payload1 store100) = Inl IMAGE_GENERATION_FAILED
   \<and> wallets (snd (executeMintFlow specIndexes emptyEnv user1 payload1 store100)) = wallets store100
   \<and> assets (snd (executeMintFlow specIndexes emptyEnv user1 payload1 store100)) = []
   \<and> receipts (snd (executeMintFlow specIndexes emptyEnv user1 payload1 store100)) = []
   \<and> audits (snd (executeMintFlow specIndexes emptyEnv user1 payload1 store100)) = []"
proof -
  have h1: "existingReceipt user1 payload1 store100 = None"
    by (simp add: existingReceipt_def store100_def)
  have h2: "lockCredits emptyEnv user1 payload1 store100
     = Inr (lockUpdate emptyEnv payload1 (hd (wallets store100)),
            store100\<lparr>wallets := [lockUpdate emptyEnv payload1 (hd (wallets store100))]\<rparr>)"
    by (simp add: flow_defs scenario_defs)
  have h3: "generateImage emptyEnv payload1 = Inl IMAGE_GENERATION_FAILED"
    by (simp add: flow_defs scenario_defs)
  have r: "fst (executeMintFlow specIndexes emptyEnv user1 payload1 store100) = Inl IMAGE_GENERATION_FAILED"
    by (simp add: flow_defs scenario_defs)
  have e: "assets store100 = []" "receipts store100 = []" "audits store100 = []"
    by (simp_all add: store100_def)
  from atomicity_on_generation_failure [OF h1 h2 h3, of specIndexes] h1 h2 h3 r e
  show ?thesis by simp
qed

section \<open>Insufficient funds\<close>

text \<open>
  Claim C4. When no receipt is stored for the call and every wallet document of the user
  holds a balance strictly below the price, the conditional update of the lock step matches
  nothing and writes nothing, the call fails with \<^verbatim>\<open>INSUFFICIENT_CREDITS\<close>, the
  wallets are unchanged and no request, ledger entry, asset, receipt or audit event is created.
\<close>

theorem insufficient_funds:
  assumes "existingReceipt uid p s = None"
      and "list_all (\<lambda>w. w_userId w = uid \<longrightarrow> balance w < priceCredits p) (wallets s)"
  shows "findOneAndUpdate (hasCredits uid p) (lockUpdate ev p) (wallets s) = (None, wallets s)
       \<and> fst (executeMintFlow ix ev uid p s) = Inl INSUFFICIENT_CREDITS
       \<and> wallets (snd (executeMintFlow ix ev uid p s)) = wallets s
       \<and> ledger (snd (executeMintFlow ix ev uid p s)) = ledger s
       \<and> map rq_id (requests (snd (executeMintFlow ix ev uid p s))) = map rq_id (requests s)
       \<and> assets (snd (executeMintFlow ix ev uid p s)) = assets s
       \<and> receipts (snd (executeMintFlow ix ev uid p s)) = receipts s
       \<and> audits (snd (executeMintFlow ix ev uid p s)) = audits s"
proof -
  have none: "find (hasCredits uid p) (wallets s) = None"
    using assms(2) by (auto simp: find_None_iff hasCredits_def list_all_iff)
  have "executeMintFlow ix ev uid p s
          = (Inl INSUFFICIENT_CREDITS, annotateFailure ev uid p INSUFFICIENT_CREDITS s)"
    using assms(1) mintTransaction_insufficient [OF none] by (rule executeMintFlow_abort)
  then show ?thesis
    using none by (simp add: annotateFailure_fields annotateFailure_request_ids find_None_findOneAndUpdate)
qed

theorem insufficient_funds_witness:
  "existingReceipt user1 payload1 store10 = None
   \<and> list_all (\<lambda>w. w_userId w = user1 \<longrightarrow> balance w < priceCredits payload1) (wallets store10)
   \<and> findOneAndUpdate (hasCredits user1 payload1) (lockUpdate env1 payload1) (wallets store10)
       = (None, wallets store10)
   \<and> executeMintFlow specIndexes env1 user1 payload1 store10 = (Inl INSUFFICIENT_CREDITS, store10)"
proof -
  have h1: "existingReceipt user1 payload1 store10 = None"
    by (simp add: existingReceipt_def store10_def)
  have h2: "list_all (\<lambda>w. w_userId w = user1 \<longrightarrow> balance w < priceCredits payload1) (wallets store10)"
    by (simp add: store10_def payload1_def)
  have r: "snd (executeMintFlow specIndexes env1 user1 payload1 store10) = store10"
    by (simp add: flow_defs scenario_defs)
  from insufficient_funds [OF h1 h2, of env1 specIndexes] h1 h2 r
  show ?thesis by (simp add: prod_eq_iff)
qed

section \<open>Conservation\<close>

text \<open>
  Claim C3 as stated fails. A locked balance of \<open>2 ^ 53\<close> and a price of 1: the lock rounds
  \<open>2 ^ 53 + 1\<close> to \<open>2 ^ 53\<close> and the settle leaves \<open>2 ^ 53 - 1\<close>, not the locked balance
  from before. A balance of 0.9 and a price of 0.2: the balance after the mint plus the price
  is not the balance from before. Two wallet documents for one user, with balances 10 and
  100, and a price of 30: the lock debits the second document and the settle takes the price
  out of the locked balance of the first. Each of the three calls succeeds.
\<close>

theorem conservation_counterexample:
  "existingReceipt user1 payloadUnit bigLockStore = None
   \<and> map lockedBalance (wallets bigLockStore) = [9007199254740992]
   \<and> fst (executeMintFlow noIndexes env1 user1 payloadUnit bigLockStore)
       = Inr (receipt1\<lparr>rc_priceCredits := 1\<rparr>)
   \<and> map lockedBalance (wallets (snd (executeMintFlow noIndexes env1 user1 payloadUnit bigLockStore)))
       = [9007199254740991]
   \<and> existingReceipt user1 payloadFraction fractionStore = None
   \<and> map balance (wallets fractionStore) = [8106479329266893 / 9007199254740992]
   \<and> fst (executeMintFlow noIndexes env1 user1 payloadFraction fractionStore)
       = Inr (receipt1\<lparr>rc_priceCredits := 3602879701896397 / 18014398509481984\<rparr>)
   \<and> map balance (wallets (snd (executeMintFlow noIndexes env1 user1 payloadFraction fractionStore)))
       = [3152519739159347 / 4503599627370496]
   \<and> (3152519739159347 / 4503599627370496 + 3602879701896397 / 18014398509481984 :: rat)
       \<noteq> 8106479329266893 / 9007199254740992
   \<and> existingReceipt user1 payload1 twoWalletStore = None
   \<and> map balance (wallets twoWalletStore) = [10, 100]
   \<and> map lockedBalance (wallets twoWalletStore) = [0, 0]
   \<and> fst (executeMintFlow noIndexes env1 user1 payload1 twoWalletStore) = Inr receipt1
   \<and> map balance (wallets (snd (executeMintFlow noIndexes env1 user1 payload1 twoWalletStore)))
       = [10, 70]
   \<and> map lockedBalance (wallets (snd (executeMintFlow noIndexes env1 user1 payload1 twoWalletStore)))
       = [- 30, 30]"
proof -
  have big: "existingReceipt user1 payloadUnit bigLockStore = None"
    "map lockedBalance (wallets bigLockStore) = [9007199254740992]"
    "fst (executeMintFlow noIndexes env1 user1 payloadUnit bigLockStore)
       = Inr (receipt1\<lparr>rc_priceCredits := 1\<rparr>)"
    "map lockedBalance (wallets (snd (executeMintFlow noIndexes env1 user1 payloadUnit bigLockStore)))
       = [9007199254740991]"
    by (simp_all add: step_defs scenario_defs rounded_sums string_of_nat_1731 string_of_nat_7)
  have frac: "existingReceipt user1 payloadFraction fractionStore = None"
    "map balance (wallets fractionStore) = [8106479329266893 / 9007199254740992]"
    "fst (executeMintFlow noIndexes env1 user1 payloadFraction fractionStore)
       = Inr (receipt1\<lparr>rc_priceCredits := 3602879701896397 / 18014398509481984\<rparr>)"
    "map balance (wallets (snd (executeMintFlow noIndexes env1 user1 payloadFraction fractionStore)))
       = [3152519739159347 / 4503599627370496]"
    by (simp_all add: step_defs scenario_defs rounded_sums string_of_nat_1731 string_of_nat_7)
  have ne: "(3152519739159347 / 4503599627370496 + 3602879701896397 / 18014398509481984 :: rat)
       \<noteq> 8106479329266893 / 9007199254740992"
    by simp
  have two: "existingReceipt user1 payload1 twoWalletStore = None"
    "map balance (wallets twoWalletStore) = [10, 100]"
    "map lockedBalance (wallets twoWalletStore) = [0, 0]"
    "fst (executeMintFlow noIndexes env1 user1 payload1 twoWalletStore) = Inr receipt1"
    "map balance (wallets (snd (executeMintFlow noIndexes env1 user1 payload1 twoWalletStore)))
       = [10, 70]"
    "map lockedBalance (wallets (snd (executeMintFlow noIndexes env1 user1 payload1 twoWalletStore)))
       = [- 30, 30]"
    by (simp_all add: flow_defs scenario_defs string_of_nat_1731 string_of_nat_7)
  from big frac ne two show ?thesis by (intro conjI)
qed

text \<open>
  Claim C3, amended. Every call that runs the saga (no receipt is stored for it) and succeeds
  appends exactly two ledger entries: the lock entry, keyed \<open>''lock-''\<close> followed by the
  idempotency key, and the spend entry, keyed \<open>''spend-''\<close> followed by the idempotency key.
  When the user has exactly one wallet document, and its locked balance, its balance less
  the price and its locked balance plus the price are safe integers (whole numbers of
  magnitude at most \<open>2 ^ 53 - 1\<close>), the user still has exactly one wallet document after the
  call, with \<open>balance_before = balance_after + priceCredits\<close> and the locked balance it had
  before: the lock moves the price from \<open>balance\<close> to \<open>lockedBalance\<close> and the settle takes
  it out of \<open>lockedBalance\<close>.
\<close>

theorem conservation_on_success:
  assumes "existingReceipt uid p s = None"
      and "executeMintFlow ix ev uid p s = (Inr r, s')"
  shows "ledger s' = ledger s @ [lockLedgerEntry ev uid p, spendLedgerEntry ev uid p]
       \<and> le_type (lockLedgerEntry ev uid p) = CREDIT_LOCK
       \<and> le_idempotencyKey (lockLedgerEntry ev uid p) = ''lock-'' @ idempotencyKey p
       \<and> le_type (spendLedgerEntry ev uid p) = CREDIT_SPEND
       \<and> le_idempotencyKey (spendLedgerEntry ev uid p) = ''spend-'' @ idempotencyKey p
       \<and> (\<forall>w. filter (ownedBy uid) (wallets s) = [w]
              \<and> isSafeInteger (lockedBalance w)
              \<and> isSafeInteger (balance w - priceCredits p)
              \<and> isSafeInteger (lockedBalance w + priceCredits p)
            \<longrightarrow> (\<exists>w'. filter (ownedBy uid) (wallets s') = [w']
                  \<and> w' = settleUpdate p (lockUpdate ev p w)
                  \<and> balance w = balance w' + priceCredits p
                  \<and> lockedBalance w' = lockedBalance w))"
proof -
  from executeMintFlow_Inr_miss [OF assms(1,2)] mintTransaction_Inr
  obtain w0 where
    w0: "find (hasCredits uid p) (wallets s) = Some w0" and
    ws: "wallets s' = updateOne (ownedBy uid) (settleUpdate p)
                        (updateOne (hasCredits uid p) (lockUpdate ev p) (wallets s))" and
    l: "ledger s' = ledger s @ [lockLedgerEntry ev uid p, spendLedgerEntry ev uid p]"
    by blast
  have wallet: "\<exists>w'. filter (ownedBy uid) (wallets s') = [w']
                  \<and> w' = settleUpdate p (lockUpdate ev p w)
                  \<and> balance w = balance w' + priceCredits p
                  \<and> lockedBalance w' = lockedBalance w"
    if one: "filter (ownedBy uid) (wallets s) = [w]"
      and safe: "isSafeInteger (lockedBalance w)" "isSafeInteger (balance w - priceCredits p)"
        "isSafeInteger (lockedBalance w + priceCredits p)"
    for w
  proof -
    from settled_wallet(2) [OF one w0, of ev] ws
    have "filter (ownedBy uid) (wallets s') = [settleUpdate p (lockUpdate ev p w)]"
      by simp
    with settled_amounts [OF safe, of ev] show ?thesis by simp
  qed
  have keys: "le_type (lockLedgerEntry ev uid p) = CREDIT_LOCK"
    "le_idempotencyKey (lockLedgerEntry ev uid p) = ''lock-'' @ idempotencyKey p"
    "le_type (spendLedgerEntry ev uid p) = CREDIT_SPEND"
    "le_idempotencyKey (spendLedgerEntry ev uid p) = ''spend-'' @ idempotencyKey p"
    by (simp_all add: lockLedgerEntry_def spendLedgerEntry_def)
  from wallet have "\<forall>w. filter (ownedBy uid) (wallets s) = [w]
              \<and> isSafeInteger (lockedBalance w)
              \<and> isSafeInteger (balance w - priceCredits p)
              \<and> isSafeInteger (lockedBalance w + priceCredits p)
            \<longrightarrow> (\<exists>w'. filter (ownedBy uid) (wallets s') = [w']
                  \<and> w' = settleUpdate p (lockUpdate ev p w)
                  \<and> balance w = balance w' + priceCredits p
                  \<and> lockedBalance w' = lockedBalance w)"
    by (intro allI impI) (elim conjE)
  with l keys show ?thesis by (intro conjI)
qed

theorem conservation_on_success_witness:
  "existingReceipt user1 payload1 store100 = None
   \<and> executeMintFlow specIndexes env1 user1 payload1 store100 = (Inr receipt1, minted1)
   \<and> filter (ownedBy user1) (wallets store100)
       = [\<lparr>w_userId = user1, balance = 100, lockedBalance = 0, updatedAt = 0\<rparr>]
   \<and> isSafeInteger 0 \<and> isSafeInteger (100 - priceCredits payload1)
   \<and> isSafeInteger (0 + priceCredits payload1)
   \<and> filter (ownedBy user1) (wallets minted1)
       = [\<lparr>w_userId = user1, balance = 70, lockedBalance = 0, updatedAt = 1730\<rparr>]
   \<and> (100 :: rat) = 70 + priceCredits payload1
   \<and> map le_idempotencyKey (ledger minted1) = [''lock-k1'', ''spend-k1'']"
proof -
  let ?w = "\<lparr>w_userId = user1, balance = 100, lockedBalance = 0, updatedAt = 0\<rparr>"
  have h1: "existingReceipt user1 payload1 store100 = None"
    by (simp add: existingReceipt_def store100_def)
  have one: "filter (ownedBy user1) (wallets store100) = [?w]"
    by (simp add: store100_def ownedBy_def)
  have safe: "isSafeInteger 0" "isSafeInteger (100 - priceCredits payload1)"
    "isSafeInteger (0 + priceCredits payload1)"
    by (simp_all add: isSafeInteger_def payload1_def)
  have pre: "filter (ownedBy user1) (wallets store100) = [?w]
              \<and> isSafeInteger (lockedBalance ?w)
              \<and> isSafeInteger (balance ?w - priceCredits payload1)
              \<and> isSafeInteger (lockedBalance ?w + priceCredits payload1)"
    using one safe by simp
  note c = conservation_on_success [OF h1 first_mint(1)]
  from c [THEN conjunct2, THEN conjunct2, THEN conjunct2, THEN conjunct2, THEN conjunct2,
      rule_format, OF pre]
  have after: "filter (ownedBy user1) (wallets minted1)
       = [\<lparr>w_userId = user1, balance = 70, lockedBalance = 0, updatedAt = 1730\<rparr>]"
    by (simp add: settleUpdate_def lockUpdate_def jsAdd_def jsRound_integer payload1_def env1_def)
  from c [THEN conjunct1]
  have led: "map le_idempotencyKey (ledger minted1) = [''lock-k1'', ''spend-k1'']"
    by (simp add: store100_def lockLedgerEntry_def spendLedgerEntry_def payload1_def)
  have ar: "(100 :: rat) = 70 + priceCredits payload1"
    by (simp add: payload1_def)
  from h1 first_mint(1) one safe after ar led show ?thesis by (intro conjI)
qed

section \<open>Minting and fetching\<close>



section \<open>Token uniqueness\<close>

text \<open>
  Claim C7. The token ids of the stored assets are pairwise different, and stay so: from a
  store whose assets have distinct token ids, any sequence of calls of \<^verbatim>\<open>executeMintFlow\<close>
  leads to a store whose assets have distinct token ids. A mint whose synthesized token id is
  already taken is rejected by the unique index of \<^verbatim>\<open>NftAssetSchema\<close> and aborts.
\<close>

theorem tokenIds_stay_unique:
  assumes "distinct (map tokenId (assets s))"
  shows "distinct (map tokenId (assets (runMintCalls ix cs s)))"
  using assms
proof (induction cs arbitrary: s)
  case Nil
  then show ?case by simp
next
  case (Cons c cs)
  from Cons.prems
  have "distinct (map tokenId (assets (snd (executeMintFlow ix (callEnv c) (callUser c) (callPayload c) s))))"
    by (rule executeMintFlow_keeps_tokenIds)
  then show ?case by (simp add: Cons.IH)
qed

theorem tokenIds_stay_unique_witness:
  "distinct (map tokenId (assets store100))
   \<and> assets (runMintCalls noIndexes
        [\<lparr>callEnv = env1, callUser = user1, callPayload = payload1\<rparr>,
         \<lparr>callEnv = env1, callUser = user1, callPayload = payload1\<rparr>] store100) = [asset1]
   \<and> distinct (map tokenId (assets (runMintCalls noIndexes
        [\<lparr>callEnv = env1, callUser = user1, callPayload = payload1\<rparr>,
         \<lparr>callEnv = env1, callUser = user1, callPayload = payload1\<rparr>] store100)))"
proof -
  have h: "distinct (map tokenId (assets store100))"
    by (simp add: store100_def)
  have r: "assets (runMintCalls noIndexes
        [\<lparr>callEnv = env1, callUser = user1, callPayload = payload1\<rparr>,
         \<lparr>callEnv = env1, callUser = user1, callPayload = payload1\<rparr>] store100) = [asset1]"
    by (simp add: first_mint colliding_mint) (simp add: minted1_def)
  from tokenIds_stay_unique [OF h] h r show ?thesis by (intro conjI)
qed

section \<open>Serving the image\<close>

text \<open>
  Claim C8 as stated fails: \<open>draftStore\<close> holds an asset with token id \<open>''TOK-1600-1''\<close> and no
  image data, and \<^verbatim>\<open>serveAssetImage\<close> answers \<^verbatim>\<open>ASSET_NOT_FOUND\<close> for it although the asset
  exists.
\<close>

theorem image_retrieval_counterexample:
  "assets draftStore = [asset1, draftAsset]
   \<and> tokenId draftAsset = ''TOK-1600-1''
   \<and> fst (serveAssetImage ''TOK-1600-1'' draftStore) = Inl ASSET_NOT_FOUND"
  by (simp add: serveAssetImage_def draftStore_def asset1_def draftAsset_def)

text \<open>
  Claim C8, amended. For every token id, \<^verbatim>\<open>serveAssetImage\<close> returns the stored image bytes
  with mime type \<open>''image/png''\<close> when the asset found for that token id carries image data, and
  fails with \<^verbatim>\<open>ASSET_NOT_FOUND\<close> when no asset has that token id; it leaves the store as it is.
\<close>

theorem image_retrieval:
  "(\<forall>a b. find (\<lambda>x. tokenId x = tid) (assets s) = Some a \<and> imageData a = Some b
       \<longrightarrow> fst (serveAssetImage tid s) = Inr (b, ''image/png''))
   \<and> ((\<forall>a\<in>set (assets s). tokenId a \<noteq> tid) \<longrightarrow> fst (serveAssetImage tid s) = Inl ASSET_NOT_FOUND)
   \<and> snd (serveAssetImage tid s) = s"
proof -
  have "find (\<lambda>x. tokenId x = tid) (assets s) = None" if "\<forall>a\<in>set (assets s). tokenId a \<noteq> tid"
    using that by (simp add: find_None_iff)
  then show ?thesis
    by (auto simp: serveAssetImage_def split: option.splits)
qed

theorem image_retrieval_witness:
  "find (\<lambda>x. tokenId x = ''TOK-1731-7'') (assets minted1) = Some asset1
   \<and> imageData asset1 = Some [0, 1, 2]
   \<and> serveAssetImage ''TOK-1731-7'' minted1 = (Inr ([0, 1, 2], ''image/png''), minted1)
   \<and> ''TOK-0-0'' \<notin> set (map tokenId (assets minted1))
   \<and> serveAssetImage ''TOK-0-0'' minted1 = (Inl ASSET_NOT_FOUND, minted1)"
proof -
  have f: "find (\<lambda>x. tokenId x = ''TOK-1731-7'') (assets minted1) = Some asset1"
    and i: "imageData asset1 = Some [0, 1, 2]"
    and n: "''TOK-0-0'' \<notin> set (map tokenId (assets minted1))"
    by (simp_all add: minted1_def asset1_def)
  from n have n': "\<forall>a\<in>set (assets minted1). tokenId a \<noteq> ''TOK-0-0''"
    by (simp add: image_iff) metis
  from image_retrieval [of "''TOK-1731-7''" minted1] f i
  have a: "serveAssetImage ''TOK-1731-7'' minted1 = (Inr ([0, 1, 2], ''image/png''), minted1)"
    by (simp add: prod_eq_iff)
  from image_retrieval [of "''TOK-0-0''" minted1] n'
  have b: "serveAssetImage ''TOK-0-0'' minted1 = (Inl ASSET_NOT_FOUND, minted1)"
    by (simp add: prod_eq_iff)
  from f i n a b show ?thesis by (intro conjI)
qed

text \<open>
  Claim C9. On a store whose assets have distinct token ids, \<^verbatim>\<open>serveAssetImage\<close> fails with
  \<^verbatim>\<open>ASSET_NOT_FOUND\<close> when no asset has the token id, and also when the asset with the token
  id has no image data; it succeeds exactly when an asset with the token id exists and carries
  image bytes.
\<close>

theorem serveAssetImage_succeeds_iff:
  assumes "distinct (map tokenId (assets s))"
  shows "((\<forall>a\<in>set (assets s). tokenId a \<noteq> tid) \<longrightarrow> fst (serveAssetImage tid s) = Inl ASSET_NOT_FOUND)
       \<and> (\<forall>a\<in>set (assets s). tokenId a = tid \<and> imageData a = None
             \<longrightarrow> fst (serveAssetImage tid s) = Inl ASSET_NOT_FOUND)
       \<and> ((\<exists>r. fst (serveAssetImage tid s) = Inr r)
            \<longleftrightarrow> (\<exists>a\<in>set (assets s). tokenId a = tid \<and> imageData a \<noteq> None))"
proof (cases "find (\<lambda>a. tokenId a = tid) (assets s)")
  case None
  then have no: "\<forall>a\<in>set (assets s). tokenId a \<noteq> tid"
    by (simp add: find_None_iff)
  have "fst (serveAssetImage tid s) = Inl ASSET_NOT_FOUND"
    using None by (simp add: serveAssetImage_def)
  with no show ?thesis by simp
next
  case (Some a)
  then have a: "a \<in> set (assets s)" "tokenId a = tid"
    by (auto simp: find_Some_iff)
  have only: "b = a" if "b \<in> set (assets s)" "tokenId b = tid" for b
    using assms a that by (meson distinct_map inj_onD)
  have c1: "\<not> (\<forall>a\<in>set (assets s). tokenId a \<noteq> tid)"
    using a by (metis)
  show ?thesis
  proof (cases "imageData a")
    case None
    have f: "fst (serveAssetImage tid s) = Inl ASSET_NOT_FOUND"
      using Some None by (simp add: serveAssetImage_def)
    have "\<not> (\<exists>b\<in>set (assets s). tokenId b = tid \<and> imageData b \<noteq> None)"
    proof
      assume "\<exists>b\<in>set (assets s). tokenId b = tid \<and> imageData b \<noteq> None"
      then obtain b where b: "b \<in> set (assets s)" "tokenId b = tid" "imageData b \<noteq> None"
        by (elim bexE conjE)
      from b(1,2) have "b = a" by (rule only)
      with b(3) None show False by simp
    qed
    with f c1 show ?thesis by simp
  next
    case (Some bytes)
    have f: "fst (serveAssetImage tid s) = Inr (bytes, ''image/png'')"
      using \<open>find (\<lambda>a. tokenId a = tid) (assets s) = Some a\<close> Some
      by (simp add: serveAssetImage_def)
    have c2: "\<forall>b\<in>set (assets s). \<not> (tokenId b = tid \<and> imageData b = None)"
    proof (intro ballI notI)
      fix b assume b: "b \<in> set (assets s)" "tokenId b = tid \<and> imageData b = None"
      then have "b = a" by (intro only) simp_all
      with b(2) Some show False by simp
    qed
    have "tokenId a = tid \<and> imageData a \<noteq> None"
      using a(2) Some by simp
    with a(1) have c3: "\<exists>b\<in>set (assets s). tokenId b = tid \<and> imageData b \<noteq> None" ..
    from f c1 c2 c3 show ?thesis by simp
  qed
qed

theorem serveAssetImage_succeeds_iff_witness:
  "distinct (map tokenId (assets draftStore))
   \<and> fst (serveAssetImage ''TOK-1600-1'' draftStore) = Inl ASSET_NOT_FOUND
   \<and> fst (serveAssetImage ''TOK-0-0'' draftStore) = Inl ASSET_NOT_FOUND
   \<and> (\<exists>r. fst (serveAssetImage ''TOK-1731-7'' draftStore) = Inr r)"
proof -
  have h: "distinct (map tokenId (assets draftStore))"
    by (simp add: draftStore_def asset1_def draftAsset_def)
  have m1: "draftAsset \<in> set (assets draftStore)" "tokenId draftAsset = ''TOK-1600-1''"
    "imageData draftAsset = None"
    and m2: "\<forall>a\<in>set (assets draftStore). tokenId a \<noteq> ''TOK-0-0''"
    and m3: "asset1 \<in> set (assets draftStore)" "tokenId asset1 = ''TOK-1731-7''"
    "imageData asset1 \<noteq> None"
    by (simp_all add: draftStore_def asset1_def draftAsset_def)
  have a: "fst (serveAssetImage ''TOK-1600-1'' draftStore) = Inl ASSET_NOT_FOUND"
    using serveAssetImage_succeeds_iff [OF h, of "''TOK-1600-1''", THEN conjunct2, THEN conjunct1, THEN bspec, OF m1(1)] m1(2,3)
    by simp
  have b: "fst (serveAssetImage ''TOK-0-0'' draftStore) = Inl ASSET_NOT_FOUND"
    using serveAssetImage_succeeds_iff [OF h, of "''TOK-0-0''", THEN conjunct1] m2
    by simp
  have "\<exists>a\<in>set (assets draftStore). tokenId a = ''TOK-1731-7'' \<and> imageData a \<noteq> None"
    using m3 by (intro bexI [of _ asset1] conjI)
  then have c: "\<exists>r. fst (serveAssetImage ''TOK-1731-7'' draftStore) = Inr r"
    using serveAssetImage_succeeds_iff [OF h, of "''TOK-1731-7''", THEN conjunct2, THEN conjunct2]
    by simp
  from h a b c show ?thesis by (intro conjI)
qed

section \<open>Generation errors\<close>

text \<open>
  Claim C6 as stated fails: when the generator call rejects, as on a transport error,
  \<^verbatim>\<open>executeMintFlow\<close> fails with the provider's error and not with
  \<^verbatim>\<open>IMAGE_GENERATION_FAILED\<close>.
\<close>

theorem generation_error_counterexample:
  "generateContent rejectingEnv (prompt payload1) = Rejected ''fetch failed''
   \<and> fst (executeMintFlow specIndexes rejectingEnv user1 payload1 store100)
       = Inl (ProviderError ''fetch failed'')
   \<and> fst (executeMintFlow specIndexes rejectingEnv user1 payload1 store100)
       \<noteq> Inl IMAGE_GENERATION_FAILED"
  by (simp add: flow_defs scenario_defs)

text \<open>
  Claim C6, amended. Once the transaction has locked the funds and recorded the request: for
  every generator response whose parts can be read and in which the loop of lines 74 to 80
  finds no non-empty image data, \<^verbatim>\<open>executeMintFlow\<close> fails with \<^verbatim>\<open>IMAGE_GENERATION_FAILED\<close>;
  when the generator call rejects, the call fails with the provider's error. In both cases the
  whole saga aborts: wallets, ledger, assets, receipts and audit events are those from before
  the call.
\<close>

theorem generation_error_mapping:
  assumes "existingReceipt uid p s = None"
      and "lockAndRecord ix ev uid p s = Inr t"
  shows "(\<forall>r ps. generateContent ev (prompt p) = Resolved r \<and> responseParts r = Inr ps
             \<and> base64Image ps = []
           \<longrightarrow> fst (executeMintFlow ix ev uid p s) = Inl IMAGE_GENERATION_FAILED
             \<and> wallets (snd (executeMintFlow ix ev uid p s)) = wallets s
             \<and> ledger (snd (executeMintFlow ix ev uid p s)) = ledger s
             \<and> assets (snd (executeMintFlow ix ev uid p s)) = assets s
             \<and> receipts (snd (executeMintFlow ix ev uid p s)) = receipts s
             \<and> audits (snd (executeMintFlow ix ev uid p s)) = audits s)
       \<and> (\<forall>m. generateContent ev (prompt p) = Rejected m
           \<longrightarrow> fst (executeMintFlow ix ev uid p s) = Inl (ProviderError m)
             \<and> wallets (snd (executeMintFlow ix ev uid p s)) = wallets s
             \<and> ledger (snd (executeMintFlow ix ev uid p s)) = ledger s
             \<and> assets (snd (executeMintFlow ix ev uid p s)) = assets s
             \<and> receipts (snd (executeMintFlow ix ev uid p s)) = receipts s
             \<and> audits (snd (executeMintFlow ix ev uid p s)) = audits s)"
proof -
  have ab: "executeMintFlow ix ev uid p s = (Inl g, annotateFailure ev uid p g s)"
    if "generateImage ev p = Inl g" for g
    using assms(1) mintTransaction_generation_error [OF assms(2) that]
    by (rule executeMintFlow_abort)
  have 1: "\<forall>r ps. generateContent ev (prompt p) = Resolved r \<and> responseParts r = Inr ps
             \<and> base64Image ps = []
           \<longrightarrow> fst (executeMintFlow ix ev uid p s) = Inl IMAGE_GENERATION_FAILED
             \<and> wallets (snd (executeMintFlow ix ev uid p s)) = wallets s
             \<and> ledger (snd (executeMintFlow ix ev uid p s)) = ledger s
             \<and> assets (snd (executeMintFlow ix ev uid p s)) = assets s
             \<and> receipts (snd (executeMintFlow ix ev uid p s)) = receipts s
             \<and> audits (snd (executeMintFlow ix ev uid p s)) = audits s"
    by (simp add: ab generateImage_def annotateFailure_fields)
  have 2: "\<forall>m. generateContent ev (prompt p) = Rejected m
           \<longrightarrow> fst (executeMintFlow ix ev uid p s) = Inl (ProviderError m)
             \<and> wallets (snd (executeMintFlow ix ev uid p s)) = wallets s
             \<and> ledger (snd (executeMintFlow ix ev uid p s)) = ledger s
             \<and> assets (snd (executeMintFlow ix ev uid p s)) = assets s
             \<and> receipts (snd (executeMintFlow ix ev uid p s)) = receipts s
             \<and> audits (snd (executeMintFlow ix ev uid p s)) = audits s"
    by (simp add: ab generateImage_def annotateFailure_fields)
  from 1 2 show ?thesis by (intro conjI)
qed

lemma lockAndRecord_rejecting:
  "lockAndRecord specIndexes rejectingEnv user1 payload1 store100
     = Inr (store100\<lparr>wallets := [\<lparr>w_userId = user1, balance = 70, lockedBalance = 30, updatedAt = 1730\<rparr>],
             ledger := [lockLedgerEntry rejectingEnv user1 payload1],
             requests := [processingRequest rejectingEnv user1 payload1]\<rparr>)"
  by (simp add: lockAndRecord_def lockCredits_def findOneAndUpdate_def hasCredits_def lockUpdate_def
      CreditLedger_create_def MintRequest_create_def create_def scenario_defs
      jsAdd_def jsRound_integer)

theorem generation_error_mapping_witness:
  "existingReceipt user1 payload1 store100 = None
   \<and> (\<exists>t. lockAndRecord specIndexes emptyEnv user1 payload1 store100 = Inr t)
   \<and> generateContent emptyEnv (prompt payload1) = emptyResponse
   \<and> executeMintFlow specIndexes emptyEnv user1 payload1 store100 = (Inl IMAGE_GENERATION_FAILED, store100)
   \<and> (\<exists>t. lockAndRecord specIndexes rejectingEnv user1 payload1 store100 = Inr t)
   \<and> generateContent rejectingEnv (prompt payload1) = Rejected ''fetch failed''
   \<and> fst (executeMintFlow specIndexes rejectingEnv user1 payload1 store100)
       = Inl (ProviderError ''fetch failed'')
   \<and> wallets (snd (executeMintFlow specIndexes rejectingEnv user1 payload1 store100))
       = wallets store100"
proof -
  have h1: "existingReceipt user1 payload1 store100 = None"
    by (simp add: existingReceipt_def store100_def)
  have g: "generateContent emptyEnv (prompt payload1) = emptyResponse"
    by (simp add: emptyEnv_def)
  have g1: "generateContent emptyEnv (prompt payload1)
              = Resolved (Response (Some [Candidate (Some (Content (Some [Part None])))]))"
    and g2: "responseParts (Response (Some [Candidate (Some (Content (Some [Part None])))])) = Inr [Part None]"
    and g3: "base64Image [Part None] = []"
    by (simp_all add: emptyEnv_def emptyResponse_def responseParts_def)
  have s: "snd (executeMintFlow specIndexes emptyEnv user1 payload1 store100) = store100"
    by (simp add: flow_defs scenario_defs)
  from generation_error_mapping [OF h1 lockAndRecord_store100, THEN conjunct1, rule_format, OF conjI, OF g1 conjI, OF g2 g3]
  have "fst (executeMintFlow specIndexes emptyEnv user1 payload1 store100) = Inl IMAGE_GENERATION_FAILED"
    by (rule conjunct1)
  with s have e: "executeMintFlow specIndexes emptyEnv user1 payload1 store100 = (Inl IMAGE_GENERATION_FAILED, store100)"
    by (simp add: prod_eq_iff)
  have r1: "generateContent rejectingEnv (prompt payload1) = Rejected ''fetch failed''"
    by (simp add: rejectingEnv_def)
  from generation_error_mapping [OF h1 lockAndRecord_rejecting, THEN conjunct2, rule_format, OF r1]
  have r: "fst (executeMintFlow specIndexes rejectingEnv user1 payload1 store100)
       = Inl (ProviderError ''fetch failed'')"
    "wallets (snd (executeMintFlow specIndexes rejectingEnv user1 payload1 store100))
       = wallets store100"
    by simp_all
  have l1: "\<exists>t. lockAndRecord specIndexes emptyEnv user1 payload1 store100 = Inr t"
    using lockAndRecord_store100 by (rule exI)
  have l2: "\<exists>t. lockAndRecord specIndexes rejectingEnv user1 payload1 store100 = Inr t"
    using lockAndRecord_rejecting by (rule exI)
  from h1 l1 g e l2 r1 r show ?thesis by (intro conjI)
qed

section \<open>Failure annotation\<close>

text \<open>
  Claim C5 at the spec's scenario C (balance 100, price 30, the generator returns no image).
  The transaction records the request with status \<open>PROCESSING\<close>, generation fails, and the
  abort discards that request with every other write; the annotation that follows the abort
  runs on the committed store, finds no request for the user and the key, and changes nothing.
  The call fails with \<^verbatim>\<open>IMAGE_GENERATION_FAILED\<close> and no request, failed or not, is stored.
\<close>

theorem failure_annotation_scenario:
  "lockAndRecord specIndexes emptyEnv user1 payload1 store100
     = Inr (store100\<lparr>wallets := [\<lparr>w_userId = user1, balance = 70, lockedBalance = 30, updatedAt = 1730\<rparr>],
             ledger := [lockLedgerEntry emptyEnv user1 payload1],
             requests := [processingRequest emptyEnv user1 payload1]\<rparr>)
   \<and> generateImage emptyEnv payload1 = Inl IMAGE_GENERATION_FAILED
   \<and> executeMintFlow specIndexes emptyEnv user1 payload1 store100 = (Inl IMAGE_GENERATION_FAILED, store100)
   \<and> requests store100 = []"
  by (simp add: flow_defs scenario_defs)

section \<open>Idempotency\<close>

text \<open>
  Claim C1 at the spec's scenario A followed by a second call with the same user and the same
  idempotency key. The receipt that the first call stores has no \<^verbatim>\<open>idempotencyKey\<close>, so the
  lookup of the second call does not find it and the saga runs again. Without unique indexes
  the second call returns a new receipt, debits the wallet a second time (balance 40) and
  leaves two receipts; with the unique indexes of the spec it fails on the ledger's duplicate
  key, and the annotation marks the completed request of the first call as \<open>FAILED\<close>. In
  neither case does the caller get the stored receipt. (When the lookup does find a receipt,
  \<open>idempotency_gate_hit\<close> shows that the call returns it and leaves the store untouched.)
\<close>

theorem repeated_mint_scenario:
  "executeMintFlow noIndexes env1 user1 payload1 store100 = (Inr receipt1, minted1)
   \<and> existingReceipt user1 payload1 minted1 = None
   \<and> fst (executeMintFlow noIndexes env2 user1 payload1 minted1) \<noteq> Inr receipt1
   \<and> map balance (wallets (snd (executeMintFlow noIndexes env2 user1 payload1 minted1))) = [40]
   \<and> length (receipts (snd (executeMintFlow noIndexes env2 user1 payload1 minted1))) = 2
   \<and> executeMintFlow specIndexes env1 user1 payload1 store100 = (Inr receipt1, minted1)
   \<and> fst (executeMintFlow specIndexes env2 user1 payload1 minted1) = Inl (DuplicateKey ''creditledgers'')
   \<and> map rq_status (requests (snd (executeMintFlow specIndexes env2 user1 payload1 minted1))) = [FAILED]"
proof -
  have t1: "string_of_nat 1841 = ''1841''" and t2: "string_of_nat 512 = ''512''"
    by (simp_all add: string_of_nat.simps digit_char_def)
  have a: "existingReceipt user1 payload1 minted1 = None"
    by (simp add: existingReceipt_def minted1_def receipt1_def)
  have b: "executeMintFlow specIndexes env2 user1 payload1 minted1
       = (Inl (DuplicateKey ''creditledgers''),
          minted1\<lparr>requests := [\<lparr>rq_id = 11, rq_payload = payload1, rq_userId = user1,
                    rq_status = FAILED,
                    rq_error = Some ''E11000 duplicate key error collection: creditledgers''\<rparr>]\<rparr>)"
    by (simp add: flow_defs scenario_defs)
  have c: "fst (executeMintFlow noIndexes env2 user1 payload1 minted1)
       = Inr (receipt1\<lparr>rc_id := 24, rc_mintRequestId := 21, rc_tokenId := ''TOK-1841-512'',
               rc_txHash := ''0x-internal-9c0e'', rc_metadataUri := ''dpal://metadata/TOK-1841-512'',
               rc_imageUri := ''/api/assets/TOK-1841-512.png'', rc_ledgerEntryId := 20\<rparr>)"
    by (simp add: flow_defs scenario_defs t1 t2)
  have d: "map balance (wallets (snd (executeMintFlow noIndexes env2 user1 payload1 minted1))) = [40]"
    and e: "length (receipts (snd (executeMintFlow noIndexes env2 user1 payload1 minted1))) = 2"
    by (simp_all add: flow_defs scenario_defs t1 t2)
  have c': "fst (executeMintFlow noIndexes env2 user1 payload1 minted1) \<noteq> Inr receipt1"
    unfolding c by (simp add: receipt1_def)
  from first_mint a b c' d e show ?thesis by simp
qed

end
